theory Spec2Isabelle
  imports Main "HOL-Library.AList"
begin

section \<open>Data model of \<^verbatim>\<open>maasserver/models/node.py\<close>\<close>

text \<open>
  Modelled from the spec: the enumeration \<^verbatim>\<open>NODE_STATUS\<close> lives in
  \<^verbatim>\<open>maasserver/enum.py\<close>, which is not part of the sources at hand. Its members are
  the sixteen lifecycle states that section 4.1 of the specification lists.
\<close>

datatype node_status =
    NEW | COMMISSIONING | FAILED_COMMISSIONING | READY | RESERVED | ALLOCATED
  | DEPLOYING | DEPLOYED | FAILED_DEPLOYMENT | RELEASING | DISK_ERASING
  | FAILED_DISK_ERASING | FAILED_RELEASING | BROKEN | MISSING | RETIRED

text \<open>
  Modelled from the spec: \<^verbatim>\<open>POWER_STATE\<close> (same missing module), the last observed
  physical power state: on, off or unknown.
\<close>

datatype power_state = ON | OFF | UNKNOWN

text \<open>\<^verbatim>\<open>NODE_PERMISSION\<close>, as \<^verbatim>\<open>_filter_visible_nodes\<close> distinguishes its members.\<close>

datatype node_permission = VIEW | EDIT | ADMIN

text \<open>
  Values stored in the JSON object \<^verbatim>\<open>power_parameters\<close>. Python's \<^verbatim>\<open>None\<close> is
  \<open>JNull\<close>.
\<close>

datatype json = JNull | JString string | JNumber int | JBool bool

type_synonym ip = string
type_synonym failure = string

record user =
  username :: string
  is_superuser :: bool

text \<open>
  A cluster interface, with the two attributes the node module reads from it: the
  \<^verbatim>\<open>management\<close> column (queried by \<^verbatim>\<open>mac_addresses_on_managed_interfaces\<close>) and
  the property \<^verbatim>\<open>is_managed\<close> (read by \<^verbatim>\<open>is_pxe_mac_on_managed_interface\<close>).
\<close>

datatype management = UNMANAGED | DHCP | DHCP_AND_DNS

record nodegroupinterface =
  management :: management
  is_managed :: bool

record macaddress =
  mac_address :: string
  created :: nat
  cluster_interface :: "nodegroupinterface option"

text \<open>
  The fields of \<^verbatim>\<open>Node\<close> that the lifecycle, power and address code reads or writes.
  \<open>nodegroup\<close> is the uuid of the cluster controller; \<open>macaddress_set\<close> is the related
  MAC address table in primary-key order.
\<close>

record node =
  system_id :: string
  hostname :: string
  status :: node_status
  owner :: "user option"
  error_description :: string
  power_type :: string
  power_parameters :: "string \<rightharpoonup> json"
  power_state :: power_state
  nodegroup :: string
  pxe_mac :: "macaddress option"
  macaddress_set :: "macaddress list"

text \<open>Return type of \<^verbatim>\<open>get_effective_power_info\<close>.\<close>

record PowerInfo =
  can_be_started :: bool
  can_be_stopped :: bool
  can_be_queried :: bool
  info_power_type :: "string option"
  info_power_parameters :: "(string \<rightharpoonup> json) option"

text \<open>
  The tuples \<^verbatim>\<open>(system_id, hostname, nodegroup.uuid, power_info)\<close> handed to the
  cluster RPC layer.
\<close>

type_synonym power_request = "string \<times> string \<times> string \<times> PowerInfo"

text \<open>
  \<^verbatim>\<open>static_mappings\<close>: a \<^verbatim>\<open>defaultdict(dict)\<close> from node group to a dictionary from
  IP address to MAC address, kept as association lists in insertion order.
\<close>

type_synonym static_mappings = "(string \<times> (ip \<times> string) list) list"

subsection \<open>Errors\<close>

text \<open>
  Each exception the module raises is a value. A \<^verbatim>\<open>NodeStateViolation\<close> carries the
  data that the source formats into its message.
\<close>

datatype violation =
    InvalidTransition string string
  | CannotAcceptEnlistment string string
  | CannotDelete string string
  | NoFailedStatus node_status

datatype error =
    NodeStateViolation violation
  | MultipleFailures "failure list"
  | StaticIPAddressExhaustion
  | UnknownPowerType

subsection \<open>Collaborators outside the module\<close>

text \<open>
  Calls that leave the module (cluster RPC, DNS, the metadata service) are recorded in
  order of issue.
\<close>

datatype event =
    BulkSetUserData "string list" "string option"
  | ClearResults string
  | StartMonitors string string node_status nat
  | UpdateHostMaps static_mappings
  | RemoveHostMaps string "ip list"
  | ChangeDnsZones "string list"
  | PowerOnNodes "power_request list"
  | PowerOffNodes "power_request list"

text \<open>
  The database as one connection sees it: the node table, the static address table
  (address, MAC address) and the DHCP lease table (node group, address, MAC address),
  together with the calls issued so far.
\<close>

record world =
  node_table :: "node list"
  staticipaddress_table :: "(ip \<times> string) list"
  dhcplease_table :: "(string \<times> ip \<times> string) list"
  calls :: "event list"

text \<open>
  Modelled from the spec: the address allocator \<^verbatim>\<open>MACAddress.claim_static_ips\<close>
  (\<^verbatim>\<open>maasserver/models/macaddress.py\<close>, not among the sources) follows the contract of
  section 6: \<^verbatim>\<open>claim(hardwareAddress) -> {address,...} | AddressExhaustion | AddressTypeClash\<close>.
\<close>

datatype claim_outcome = Claimed "ip list" | TypeClash | Exhaustion

text \<open>
  A Twisted deferred created by a power RPC, described by how it settles: the number of
  seconds after which it fires, whether it fires with success, and the value or failure
  it fires with.
\<close>

datatype deferred = Deferred (fires_after: nat) (succeeds: bool) (outcome: failure)

text \<open>
  Constants, tables and remote services that the module imports and that are not among
  the sources are parameters of the model:
  \<^item> \<open>NODE_TRANSITIONS\<close>: the adjacency table of the node-status machine, a dictionary
    whose keys are the stored status or \<^verbatim>\<open>None\<close> for a node that is not stored yet;
  \<^item> \<open>QUERY_POWER_TYPES\<close>: the registry of power types whose state can be queried;
  \<^item> \<open>claim_static_ips\<close>: the address allocator, reading the static address table;
  \<^item> \<open>update_host_maps\<close>, \<open>remove_host_maps\<close>: the DHCP host-map RPCs, returning the
    failures they met;
  \<^item> \<open>power_on_nodes\<close>, \<open>power_off_nodes\<close>: the power RPCs, returning the deferreds
    of the dispatches they made (the values of the dictionary they return);
  \<^item> \<open>commissioning_user_data\<close>, \<open>disk_erasing_user_data\<close>: the two
    \<^verbatim>\<open>generate_user_data\<close> functions of the metadata server.
\<close>

record env =
  NODE_TRANSITIONS :: "node_status option \<rightharpoonup> node_status list"
  QUERY_POWER_TYPES :: "string list"
  claim_static_ips :: "(ip \<times> string) list \<Rightarrow> macaddress \<Rightarrow> claim_outcome"
  update_host_maps :: "static_mappings \<Rightarrow> failure list"
  remove_host_maps :: "(string \<times> ip list) list \<Rightarrow> failure list"
  power_on_nodes :: "power_request list \<Rightarrow> deferred list"
  power_off_nodes :: "power_request list \<Rightarrow> deferred list"
  commissioning_user_data :: "node \<Rightarrow> string"
  disk_erasing_user_data :: "node \<Rightarrow> string"

text \<open>
  Modelled from the spec: \<^verbatim>\<open>NODE_STATUS_CHOICES_DICT\<close> (\<^verbatim>\<open>maasserver/enum.py\<close>) gives
  every status its display name; the names are those of section 4.1.
\<close>

fun NODE_STATUS_CHOICES_DICT :: "node_status \<Rightarrow> string" where
  "NODE_STATUS_CHOICES_DICT NEW = ''new''"
| "NODE_STATUS_CHOICES_DICT COMMISSIONING = ''commissioning''"
| "NODE_STATUS_CHOICES_DICT FAILED_COMMISSIONING = ''failed-commissioning''"
| "NODE_STATUS_CHOICES_DICT READY = ''ready''"
| "NODE_STATUS_CHOICES_DICT RESERVED = ''reserved''"
| "NODE_STATUS_CHOICES_DICT ALLOCATED = ''allocated''"
| "NODE_STATUS_CHOICES_DICT DEPLOYING = ''deploying''"
| "NODE_STATUS_CHOICES_DICT DEPLOYED = ''deployed''"
| "NODE_STATUS_CHOICES_DICT FAILED_DEPLOYMENT = ''failed-deployment''"
| "NODE_STATUS_CHOICES_DICT RELEASING = ''releasing''"
| "NODE_STATUS_CHOICES_DICT DISK_ERASING = ''disk-erasing''"
| "NODE_STATUS_CHOICES_DICT FAILED_DISK_ERASING = ''failed-disk-erasing''"
| "NODE_STATUS_CHOICES_DICT FAILED_RELEASING = ''failed-releasing''"
| "NODE_STATUS_CHOICES_DICT BROKEN = ''broken''"
| "NODE_STATUS_CHOICES_DICT MISSING = ''missing''"
| "NODE_STATUS_CHOICES_DICT RETIRED = ''retired''"

text \<open>
  Modelled from the spec: \<^verbatim>\<open>get_failed_status\<close> and \<^verbatim>\<open>is_failed_status\<close>
  (\<^verbatim>\<open>maasserver/node_status.py\<close>, not among the sources). Section 4.1:
  \<^verbatim>\<open>failureCounterpart\<close> maps an in-progress state to its corresponding failure state and
  returns none for a state without one; \<^verbatim>\<open>isFailureState\<close> is true for all
  \<^verbatim>\<open>failed-*\<close> states.
\<close>

fun get_failed_status :: "node_status \<Rightarrow> node_status option" where
  "get_failed_status COMMISSIONING = Some FAILED_COMMISSIONING"
| "get_failed_status DEPLOYING = Some FAILED_DEPLOYMENT"
| "get_failed_status RELEASING = Some FAILED_RELEASING"
| "get_failed_status DISK_ERASING = Some FAILED_DISK_ERASING"
| "get_failed_status _ = None"

fun is_failed_status :: "node_status \<Rightarrow> bool" where
  "is_failed_status FAILED_COMMISSIONING = True"
| "is_failed_status FAILED_DEPLOYMENT = True"
| "is_failed_status FAILED_DISK_ERASING = True"
| "is_failed_status FAILED_RELEASING = True"
| "is_failed_status _ = False"

section \<open>The node-status machine and persistence\<close>

text \<open>
  \<^verbatim>\<open>get_db_state(self, 'status')\<close>: the status of the stored row of \<open>self\<close>, or
  \<^verbatim>\<open>None\<close> when the node is not stored yet. Rows are identified by \<open>system_id\<close>,
  which is unique and not editable.
\<close>

definition get_db_state :: "world \<Rightarrow> node \<Rightarrow> node option" where
  "get_db_state w self = find (\<lambda>row. system_id row = system_id self) (node_table w)"

definition get_db_status :: "world \<Rightarrow> node \<Rightarrow> node_status option" where
  "get_db_status w self = map_option status (get_db_state w self)"

text \<open>\<^verbatim>\<open>NODE_TRANSITIONS.get(old_status, ())\<close>.\<close>

definition transitions_from :: "env \<Rightarrow> node_status option \<Rightarrow> node_status list" where
  "transitions_from e old_status =
     (case NODE_TRANSITIONS e old_status of None \<Rightarrow> [] | Some ts \<Rightarrow> ts)"

text \<open>\<^verbatim>\<open>NODE_STATUS_CHOICES_DICT.get(s, "Unknown")\<close> for a status or \<^verbatim>\<open>None\<close>.\<close>

definition status_name :: "node_status option \<Rightarrow> string" where
  "status_name s = (case s of None \<Rightarrow> ''Unknown'' | Some st \<Rightarrow> NODE_STATUS_CHOICES_DICT st)"

text \<open>\<^verbatim>\<open>Node.clean_status\<close>, given the stored status \<open>old_status\<close>.\<close>

definition clean_status :: "env \<Rightarrow> node_status option \<Rightarrow> node_status \<Rightarrow> error + unit" where
  "clean_status e old_status new_status =
     (if Some new_status = old_status then Inr ()
      else if new_status \<in> set (transitions_from e old_status) then Inr ()
      else Inl (NodeStateViolation
                 (InvalidTransition (status_name old_status) (status_name (Some new_status)))))"

text \<open>\<^verbatim>\<open>Node.clean\<close>: the model's validation of the other fields is out of scope.\<close>

definition clean :: "env \<Rightarrow> world \<Rightarrow> node \<Rightarrow> error + unit" where
  "clean e w self = clean_status e (get_db_status w self) (status self)"

text \<open>Writing the row of \<open>self\<close>: an update when the node is stored, an insert otherwise.\<close>

definition db_write :: "world \<Rightarrow> node \<Rightarrow> world" where
  "db_write w self =
     (if get_db_state w self = None
      then w\<lparr>node_table := node_table w @ [self]\<rparr>
      else w\<lparr>node_table :=
               map (\<lambda>row. if system_id row = system_id self then self else row) (node_table w)\<rparr>)"

text \<open>
  Modelled from the spec: \<^verbatim>\<open>CleanSave.save\<close> (\<^verbatim>\<open>maasserver/models/cleansave.py\<close>, not
  among the sources). Section 4.1, \<^verbatim>\<open>applyTransition\<close>: validates, then sets the status;
  section 3: no mutation of the status bypasses validation. So \<open>save\<close> runs \<open>clean\<close> and
  writes the row only when it passes.
\<close>

definition save :: "env \<Rightarrow> world \<Rightarrow> node \<Rightarrow> (error + unit) \<times> world" where
  "save e w self =
     (case clean e w self of
        Inl err \<Rightarrow> (Inl err, w)
      | Inr _ \<Rightarrow> (Inr (), db_write w self))"

section \<open>Power control\<close>

text \<open>\<^verbatim>\<open>Node.get_effective_power_type\<close>: the empty power type is the unconfigured one.\<close>

definition get_effective_power_type :: "node \<Rightarrow> error + string" where
  "get_effective_power_type self =
     (if power_type self = [] then Inl UnknownPowerType else Inr (power_type self))"

text \<open>
  \<^verbatim>\<open>Node.get_primary_mac\<close>: the first MAC address in order of creation
  (\<^verbatim>\<open>order_by('created')[:1]\<close>), if any.
\<close>

definition get_primary_mac :: "node \<Rightarrow> macaddress option" where
  "get_primary_mac self =
     (case sort_key created (macaddress_set self) of [] \<Rightarrow> None | m # _ \<Rightarrow> Some m)"

text \<open>\<^verbatim>\<open>dict.setdefault\<close> and \<^verbatim>\<open>dict.get\<close> (with default \<^verbatim>\<open>None\<close>).\<close>

definition setdefault :: "(string \<rightharpoonup> json) \<Rightarrow> string \<Rightarrow> json \<Rightarrow> (string \<rightharpoonup> json)" where
  "setdefault d k v = (case d k of None \<Rightarrow> d(k \<mapsto> v) | Some _ \<Rightarrow> d)"

definition dict_get :: "(string \<rightharpoonup> json) \<Rightarrow> string \<Rightarrow> json" where
  "dict_get d k = (case d k of None \<Rightarrow> JNull | Some v \<Rightarrow> v)"

text \<open>
  \<^verbatim>\<open>Node.get_effective_power_parameters\<close>. An unset \<^verbatim>\<open>power_parameters\<close> field (the
  empty string) and an empty dictionary both give the empty map.
\<close>

definition get_effective_power_parameters :: "node \<Rightarrow> (string \<rightharpoonup> json)" where
  "get_effective_power_parameters self =
     (let p0 = power_parameters self;
          p1 = setdefault p0 ''system_id'' (JString (system_id self));
          p2 = setdefault p1 ''fence_cdu'' (JString ''/usr/sbin/fence_cdu'');
          p3 = setdefault p2 ''ipmipower'' (JString ''/usr/sbin/ipmipower'');
          p4 = setdefault p3 ''ipmitool'' (JString ''/usr/bin/ipmitool'');
          p5 = setdefault p4 ''ipmi_chassis_config'' (JString ''/usr/sbin/ipmi-chassis-config'');
          p6 = setdefault p5 ''ipmi_config'' (JString ''ipmi.conf'');
          p7 = (if power_type self = ''virsh''
                then setdefault p6 ''power_address'' (JString ''qemu://localhost/system'')
                else setdefault p6 ''power_address'' (JString []));
          p8 = setdefault p7 ''username'' (JString []);
          p9 = setdefault p8 ''power_id'' (JString (system_id self));
          p10 = setdefault p9 ''power_driver'' (JString []);
          p11 = setdefault p10 ''power_pass'' (JString []);
          p12 = setdefault p11 ''power_off_mode'' (JString []);
          p13 = (case p12 ''mac_address'' of
                   Some _ \<Rightarrow> p12
                 | None \<Rightarrow>
                     (case get_primary_mac self of
                        Some primary_mac \<Rightarrow> p12(''mac_address'' \<mapsto> JString (mac_address primary_mac))
                      | None \<Rightarrow> p12))
      in if status self = DEPLOYED
         then p13(''boot_mode'' \<mapsto> JString ''local'')
         else p13(''boot_mode'' \<mapsto> JString ''pxe''))"

text \<open>\<^verbatim>\<open>Node.get_effective_power_info\<close>.\<close>

definition get_effective_power_info :: "env \<Rightarrow> node \<Rightarrow> PowerInfo" where
  "get_effective_power_info e self =
     (let power_params = get_effective_power_parameters self in
      case get_effective_power_type self of
        Inl _ \<Rightarrow>
          \<lparr>can_be_started = False, can_be_stopped = False, can_be_queried = False,
           info_power_type = None, info_power_parameters = None\<rparr>
      | Inr ptype \<Rightarrow>
          (let mac = dict_get power_params ''mac_address'';
               started = (if ptype = ''ether_wake''
                          then mac \<noteq> JString [] \<and> mac \<noteq> JNull else True);
               stopped = (if ptype = ''ether_wake'' then False else True);
               queried = (ptype \<in> set (QUERY_POWER_TYPES e))
           in \<lparr>can_be_started = started, can_be_stopped = stopped, can_be_queried = queried,
               info_power_type = Some ptype, info_power_parameters = Some power_params\<rparr>))"

text \<open>The timeout of the decorator on \<^verbatim>\<open>block_until_commands_complete\<close>, in seconds.\<close>

definition power_commands_timeout :: nat where
  "power_commands_timeout = 30"

definition timed_out :: failure where
  "timed_out = ''timed out''"

text \<open>
  Modelled from the spec: the decorator \<^verbatim>\<open>asynchronous(timeout=...)\<close>
  (\<^verbatim>\<open>provisioningserver/utils/twisted.py\<close>, not among the sources) around
  \<^verbatim>\<open>DeferredList(deferreds, consumeErrors=True)\<close>. Section 4.2, step 5: the call waits for
  all outstanding dispatches with a single bounded timeout; any dispatch that errors or
  times out is collected, and nothing is reported before all dispatches have settled. So
  the wait yields one \<^verbatim>\<open>(success, result)\<close> pair per deferred, in order; a deferred that
  has not fired when the timeout elapses counts as failed.
\<close>

definition asynchronous_DeferredList :: "nat \<Rightarrow> deferred list \<Rightarrow> (bool \<times> failure) list" where
  "asynchronous_DeferredList timeout deferreds =
     map (\<lambda>d. if fires_after d \<le> timeout then (succeeds d, outcome d) else (False, timed_out))
         deferreds"

definition block_until_commands_complete :: "deferred list \<Rightarrow> (bool \<times> failure) list" where
  "block_until_commands_complete deferreds =
     asynchronous_DeferredList power_commands_timeout deferreds"

text \<open>\<^verbatim>\<open>wait_for_power_commands\<close>.\<close>

definition wait_for_power_commands :: "deferred list \<Rightarrow> error + unit" where
  "wait_for_power_commands deferreds =
     (let results = block_until_commands_complete deferreds;
          failures = map snd (filter (\<lambda>(success, result). \<not> success) results)
      in if length failures \<noteq> 0 then Inl (MultipleFailures failures) else Inr ())"

section \<open>Address claims and host maps\<close>

text \<open>\<^verbatim>\<open>Node.get_pxe_mac\<close> and \<^verbatim>\<open>Node.is_pxe_mac_on_managed_interface\<close>.\<close>

definition get_pxe_mac :: "node \<Rightarrow> macaddress option" where
  "get_pxe_mac self =
     (case pxe_mac self of
        Some m \<Rightarrow> Some m
      | None \<Rightarrow> (case macaddress_set self of [] \<Rightarrow> None | m # _ \<Rightarrow> Some m))"

definition is_pxe_mac_on_managed_interface :: "node \<Rightarrow> bool" where
  "is_pxe_mac_on_managed_interface self =
     (case get_pxe_mac self of
        Some m \<Rightarrow> (case cluster_interface m of Some ci \<Rightarrow> is_managed ci | None \<Rightarrow> False)
      | None \<Rightarrow> False)"

text \<open>
  \<^verbatim>\<open>Node.claim_static_ip_addresses\<close>. The allocator either claims all the addresses it
  returns, which are then rows of the static address table, or raises and claims none
  (the call runs inside \<^verbatim>\<open>transaction.atomic()\<close>).
\<close>

definition claim_static_ip_addresses ::
    "env \<Rightarrow> world \<Rightarrow> node \<Rightarrow> (error + (ip \<times> string) list) \<times> world" where
  "claim_static_ip_addresses e w self =
     (case get_pxe_mac self of
        None \<Rightarrow> (Inr [], w)
      | Some mac \<Rightarrow>
          (case claim_static_ips e (staticipaddress_table w) mac of
             TypeClash \<Rightarrow> (Inr [], w)
           | Exhaustion \<Rightarrow> (Inl StaticIPAddressExhaustion, w)
           | Claimed static_ips \<Rightarrow>
               (let claims = map (\<lambda>static_ip. (static_ip, mac_address mac)) static_ips
                in (Inr claims,
                    w\<lparr>staticipaddress_table := staticipaddress_table w @ claims\<rparr>))))"

text \<open>
  \<^verbatim>\<open>static_mappings[nodegroup].update(claims)\<close> on a \<^verbatim>\<open>defaultdict(dict)\<close>: the entry of
  the node group is created when missing, and each claim is stored under its address.
\<close>

definition static_mappings_update ::
    "static_mappings \<Rightarrow> string \<Rightarrow> (ip \<times> string) list \<Rightarrow> static_mappings" where
  "static_mappings_update sm ng claims =
     (let current = (case map_of sm ng of None \<Rightarrow> [] | Some d \<Rightarrow> d)
      in AList.update ng (foldl (\<lambda>d (k, v). AList.update k v d) current claims) sm)"

text \<open>\<^verbatim>\<open>Node.delete_host_maps\<close>; \<open>for_ips\<close> is a set, kept as a list without repetition.\<close>

definition delete_host_maps :: "env \<Rightarrow> world \<Rightarrow> node \<Rightarrow> ip list \<Rightarrow> (error + unit) \<times> world" where
  "delete_host_maps e w self for_ips =
     (if length for_ips > 0 then
        (let removal_mapping = [(nodegroup self, for_ips)];
             remove_host_maps_failures = remove_host_maps e removal_mapping;
             w1 = w\<lparr>calls := calls w @ [RemoveHostMaps (nodegroup self) for_ips]\<rparr>
         in if length remove_host_maps_failures \<noteq> 0
            then (Inl (MultipleFailures remove_host_maps_failures), w1)
            else (Inr (), w1))
      else (Inr (), w))"

section \<open>The node manager\<close>

text \<open>\<^verbatim>\<open>NodeManager._filter_visible_nodes\<close>, \<^verbatim>\<open>filter_by_ids\<close> and \<^verbatim>\<open>get_nodes\<close>.\<close>

definition filter_visible_nodes :: "node list \<Rightarrow> user option \<Rightarrow> node_permission \<Rightarrow> node list" where
  "filter_visible_nodes nodes usr perm =
     (case usr of
        None \<Rightarrow> []
      | Some u \<Rightarrow>
          if is_superuser u then nodes
          else (case perm of
                  VIEW \<Rightarrow> filter (\<lambda>n. owner n = None \<or> owner n = Some u) nodes
                | EDIT \<Rightarrow> filter (\<lambda>n. owner n = Some u) nodes
                | ADMIN \<Rightarrow> []))"

definition filter_by_ids :: "node list \<Rightarrow> string list option \<Rightarrow> node list" where
  "filter_by_ids query ids =
     (case ids of None \<Rightarrow> query | Some l \<Rightarrow> filter (\<lambda>n. system_id n \<in> set l) query)"

definition get_nodes ::
    "world \<Rightarrow> user option \<Rightarrow> node_permission \<Rightarrow> string list option \<Rightarrow> node list" where
  "get_nodes w usr perm ids = filter_by_ids (filter_visible_nodes (node_table w) usr perm) ids"

text \<open>The power requests of the nodes that pass \<^verbatim>\<open>gen_power_info\<close>.\<close>

definition power_request_of :: "node \<Rightarrow> PowerInfo \<Rightarrow> power_request" where
  "power_request_of n power_info = (system_id n, hostname n, nodegroup n, power_info)"

definition nodes_start_info :: "env \<Rightarrow> node list \<Rightarrow> power_request list" where
  "nodes_start_info e nodes =
     map (\<lambda>n. power_request_of n (get_effective_power_info e n))
         (filter (\<lambda>n. can_be_started (get_effective_power_info e n)) nodes)"

text \<open>
  In \<^verbatim>\<open>stop_nodes\<close> the generator also stores the stop mode in the power parameters,
  which are present whenever \<open>can_be_stopped\<close> holds.
\<close>

definition smuggle_stop_mode :: "string \<Rightarrow> PowerInfo \<Rightarrow> PowerInfo" where
  "smuggle_stop_mode stop_mode power_info =
     power_info\<lparr>info_power_parameters :=
       map_option (\<lambda>p. p(''power_off_mode'' \<mapsto> JString stop_mode))
                  (info_power_parameters power_info)\<rparr>"

definition nodes_stop_info :: "env \<Rightarrow> string \<Rightarrow> node list \<Rightarrow> power_request list" where
  "nodes_stop_info e stop_mode nodes =
     map (\<lambda>n. power_request_of n (smuggle_stop_mode stop_mode (get_effective_power_info e n)))
         (filter (\<lambda>n. can_be_stopped (get_effective_power_info e n)) nodes)"

definition powered_systems :: "power_request list \<Rightarrow> string list" where
  "powered_systems infos = map fst infos"

text \<open>\<^verbatim>\<open>NodeManager.stop_nodes\<close>.\<close>

definition stop_nodes ::
    "env \<Rightarrow> world \<Rightarrow> string list option \<Rightarrow> user option \<Rightarrow> string \<Rightarrow> (error + node list) \<times> world" where
  "stop_nodes e w ids by_user stop_mode =
     (let nodes = get_nodes w by_user EDIT ids;
          infos = nodes_stop_info e stop_mode nodes;
          deferreds = power_off_nodes e infos;
          w1 = w\<lparr>calls := calls w @ [PowerOffNodes infos]\<rparr>
      in case wait_for_power_commands deferreds of
           Inl err \<Rightarrow> (Inl err, w1)
         | Inr _ \<Rightarrow> (Inr (filter (\<lambda>n. system_id n \<in> set (powered_systems infos)) nodes), w1))"

section \<open>Deployment and the power-on batch\<close>

text \<open>\<^verbatim>\<open>Node.get_deployment_time\<close>: forty minutes, in seconds.\<close>

definition get_deployment_time :: nat where
  "get_deployment_time = 40 * 60"

text \<open>
  \<^verbatim>\<open>Node.start_transition_monitor\<close>: one \<^verbatim>\<open>StartMonitors\<close> call to the cluster of the
  node; a timeout of the acknowledgement is logged and not raised.
\<close>

definition start_transition_monitor :: "world \<Rightarrow> node \<Rightarrow> nat \<Rightarrow> world" where
  "start_transition_monitor w self timeout =
     w\<lparr>calls := calls w @ [StartMonitors (nodegroup self) (system_id self) (status self) timeout]\<rparr>"

text \<open>\<^verbatim>\<open>Node.start_deployment\<close>. The third component is \<open>self\<close> after the call.\<close>

definition start_deployment :: "env \<Rightarrow> world \<Rightarrow> node \<Rightarrow> (error + unit) \<times> world \<times> node" where
  "start_deployment e w self =
     (let self1 = self\<lparr>status := DEPLOYING\<rparr> in
      case save e w self1 of
        (Inl err, w1) \<Rightarrow> (Inl err, w1, self1)
      | (Inr _, w1) \<Rightarrow> (Inr (), start_transition_monitor w1 self1 get_deployment_time, self1))"

text \<open>
  The first loop of \<^verbatim>\<open>start_nodes\<close>: for every allocated node of the batch, claim
  static addresses, note them for the host maps when the PXE MAC is on a managed
  interface, and start the deployment. An exception leaves the loop at once. The result
  holds the node objects as the loop leaves them, and the static mappings.
\<close>

fun claim_and_deploy ::
    "env \<Rightarrow> node list \<Rightarrow> static_mappings \<Rightarrow> world \<Rightarrow> (error + node list \<times> static_mappings) \<times> world"
where
  "claim_and_deploy e [] sm w = (Inr ([], sm), w)"
| "claim_and_deploy e (n # rest) sm w =
     (if status n = ALLOCATED then
        (case claim_static_ip_addresses e w n of
           (Inl err, w1) \<Rightarrow> (Inl err, w1)
         | (Inr claims, w1) \<Rightarrow>
             (let sm1 = (if is_pxe_mac_on_managed_interface n
                         then static_mappings_update sm (nodegroup n) claims else sm)
              in case start_deployment e w1 n of
                   (Inl err, w2, n') \<Rightarrow> (Inl err, w2)
                 | (Inr _, w2, n') \<Rightarrow>
                     (case claim_and_deploy e rest sm1 w2 of
                        (Inl err, w3) \<Rightarrow> (Inl err, w3)
                      | (Inr (nodes', sm2), w3) \<Rightarrow> (Inr (n' # nodes', sm2), w3))))
      else
        (case claim_and_deploy e rest sm w of
           (Inl err, w3) \<Rightarrow> (Inl err, w3)
         | (Inr (nodes', sm2), w3) \<Rightarrow> (Inr (n # nodes', sm2), w3)))"

text \<open>
  The rest of \<^verbatim>\<open>start_nodes\<close> once the loop is through: update the host maps, update
  the DNS zones, dispatch power-on for the nodes that can be started and wait.
\<close>

definition sync_and_power_on ::
    "env \<Rightarrow> node list \<Rightarrow> static_mappings \<Rightarrow> world \<Rightarrow> (error + node list) \<times> world" where
  "sync_and_power_on e nodes sm w =
     (let update_host_maps_failures = update_host_maps e sm;
          w1 = w\<lparr>calls := calls w @ [UpdateHostMaps sm]\<rparr>
      in if length update_host_maps_failures \<noteq> 0
         then (Inl (MultipleFailures update_host_maps_failures), w1)
         else
           (let w2 = w1\<lparr>calls := calls w1 @ [ChangeDnsZones (remdups (map nodegroup nodes))]\<rparr>;
                infos = nodes_start_info e nodes;
                deferreds = power_on_nodes e infos;
                w3 = w2\<lparr>calls := calls w2 @ [PowerOnNodes infos]\<rparr>
            in case wait_for_power_commands deferreds of
                 Inl err \<Rightarrow> (Inl err, w3)
               | Inr _ \<Rightarrow>
                   (Inr (filter (\<lambda>n. system_id n \<in> set (powered_systems infos)) nodes), w3)))"

text \<open>\<^verbatim>\<open>NodeManager.start_nodes\<close>.\<close>

definition start_nodes ::
    "env \<Rightarrow> world \<Rightarrow> string list option \<Rightarrow> user option \<Rightarrow> string option
       \<Rightarrow> (error + node list) \<times> world" where
  "start_nodes e w ids by_user user_data =
     (let nodes = get_nodes w by_user EDIT ids;
          w0 = w\<lparr>calls := calls w @ [BulkSetUserData (map system_id nodes) user_data]\<rparr>
      in case claim_and_deploy e nodes [] w0 of
           (Inl err, w1) \<Rightarrow> (Inl err, w1)
         | (Inr (nodes', sm), w1) \<Rightarrow> sync_and_power_on e nodes' sm w1)"

section \<open>Lifecycle operations\<close>

text \<open>
  \<^verbatim>\<open>Node.start_commissioning\<close>. The result is the exception or the normal return, the
  world, and \<open>self\<close> after the call. An exception raised by \<open>save\<close> inside the handler
  replaces the one being handled.
\<close>

definition start_commissioning ::
    "env \<Rightarrow> world \<Rightarrow> node \<Rightarrow> user option \<Rightarrow> (error + unit) \<times> world \<times> node" where
  "start_commissioning e w self usr =
     (let user_data = commissioning_user_data e self;
          w0 = w\<lparr>calls := calls w @ [ClearResults (system_id self)]\<rparr>;
          old_status = status self;
          self1 = self\<lparr>status := COMMISSIONING\<rparr>
      in case save e w0 self1 of
           (Inl err, w1) \<Rightarrow> (Inl err, w1, self1)
         | (Inr _, w1) \<Rightarrow>
             (case start_nodes e w1 (Some [system_id self1]) usr (Some user_data) of
                (Inl ex, w2) \<Rightarrow>
                  (let self2 = self1\<lparr>status := old_status\<rparr> in
                   case save e w2 self2 of
                     (Inl err, w3) \<Rightarrow> (Inl err, w3, self2)
                   | (Inr _, w3) \<Rightarrow> (Inl ex, w3, self2))
              | (Inr _, w2) \<Rightarrow> (Inr (), w2, self1)))"

text \<open>
  \<^verbatim>\<open>Node.accept_enlistment\<close>: \<open>Inr None\<close> when the node was already accepted,
  \<open>Inr (Some self)\<close> when it has made the transition from \<open>NEW\<close>.
\<close>

definition accept_enlistment ::
    "env \<Rightarrow> world \<Rightarrow> node \<Rightarrow> user option \<Rightarrow> (error + node option) \<times> world \<times> node" where
  "accept_enlistment e w self usr =
     (if status self \<in> set [READY, COMMISSIONING] then (Inr None, w, self)
      else if status self \<noteq> NEW then
        (Inl (NodeStateViolation
               (CannotAcceptEnlistment (system_id self) (NODE_STATUS_CHOICES_DICT (status self)))),
         w, self)
      else
        (case start_commissioning e w self usr of
           (Inl err, w1, self1) \<Rightarrow> (Inl err, w1, self1)
         | (Inr _, w1, self1) \<Rightarrow> (Inr (Some self1), w1, self1)))"

text \<open>\<^verbatim>\<open>Node.start_disk_erasing\<close>.\<close>

definition start_disk_erasing ::
    "env \<Rightarrow> world \<Rightarrow> node \<Rightarrow> user option \<Rightarrow> (error + unit) \<times> world \<times> node" where
  "start_disk_erasing e w self usr =
     (let user_data = disk_erasing_user_data e self;
          self1 = self\<lparr>status := DISK_ERASING\<rparr>
      in case save e w self1 of
           (Inl err, w1) \<Rightarrow> (Inl err, w1, self1)
         | (Inr _, w1) \<Rightarrow>
             (case start_nodes e w1 (Some [system_id self1]) usr (Some user_data) of
                (Inl ex, w2) \<Rightarrow>
                  (let self2 = self1\<lparr>status := FAILED_DISK_ERASING\<rparr> in
                   case save e w2 self2 of
                     (Inl err, w3) \<Rightarrow> (Inl err, w3, self2)
                   | (Inr _, w3) \<Rightarrow> (Inl ex, w3, self2))
              | (Inr _, w2) \<Rightarrow> (Inr (), w2, self1)))"

text \<open>\<^verbatim>\<open>Node.mark_failed\<close>.\<close>

definition mark_failed ::
    "env \<Rightarrow> world \<Rightarrow> node \<Rightarrow> string \<Rightarrow> (error + unit) \<times> world \<times> node" where
  "mark_failed e w self description =
     (case get_failed_status (status self) of
        Some new_status \<Rightarrow>
          (let self1 = self\<lparr>status := new_status, error_description := description\<rparr> in
           case save e w self1 of
             (Inl err, w1) \<Rightarrow> (Inl err, w1, self1)
           | (Inr _, w1) \<Rightarrow> (Inr (), w1, self1))
      | None \<Rightarrow>
          if is_failed_status (status self) then (Inr (), w, self)
          else (Inl (NodeStateViolation (NoFailedStatus (status self))), w, self))"

text \<open>\<^verbatim>\<open>Node.update_power_state\<close>.\<close>

definition update_power_state ::
    "env \<Rightarrow> world \<Rightarrow> node \<Rightarrow> power_state \<Rightarrow> (error + unit) \<times> world \<times> node" where
  "update_power_state e w self pstate =
     (let self1 = self\<lparr>power_state := pstate\<rparr>;
          mark_ready = (status self1 = RELEASING \<and> pstate = OFF);
          self2 = (if mark_ready then self1\<lparr>status := READY, owner := None\<rparr> else self1)
      in case save e w self2 of (r, w1) \<Rightarrow> (r, w1, self2))"

section \<open>Deleting a node\<close>

text \<open>
  Modelled from the spec: \<^verbatim>\<open>StaticIPAddress.objects.delete_by_node\<close>
  (\<^verbatim>\<open>maasserver/models/staticipaddress.py\<close>, not among the sources). Section 4.3,
  \<^verbatim>\<open>releaseForNode\<close>: deallocates all addresses owned by the node and collects the
  deallocated address set. An address is owned by the node when it is linked to one of
  the node's MAC addresses.
\<close>

definition delete_by_node :: "world \<Rightarrow> node \<Rightarrow> ip list \<times> world" where
  "delete_by_node w self =
     (let macs = map mac_address (macaddress_set self);
          owned = filter (\<lambda>(address, mac). mac \<in> set macs) (staticipaddress_table w)
      in (map fst owned,
          w\<lparr>staticipaddress_table :=
              filter (\<lambda>(address, mac). mac \<notin> set macs) (staticipaddress_table w)\<rparr>))"

text \<open>\<^verbatim>\<open>Node.mac_addresses_on_managed_interfaces\<close>.\<close>

definition mac_addresses_on_managed_interfaces :: "node \<Rightarrow> macaddress list" where
  "mac_addresses_on_managed_interfaces self =
     filter (\<lambda>m. case cluster_interface m of
                   None \<Rightarrow> False
                 | Some ci \<Rightarrow> management ci \<noteq> UNMANAGED)
            (macaddress_set self)"

text \<open>
  \<^verbatim>\<open>Node.delete\<close>. Deleting the MAC addresses also deletes their DHCP leases; the last
  step removes the row of the node.
\<close>

definition delete :: "env \<Rightarrow> world \<Rightarrow> node \<Rightarrow> (error + unit) \<times> world" where
  "delete e w self =
     (if status self = ALLOCATED then
        (Inl (NodeStateViolation
               (CannotDelete (system_id self) (NODE_STATUS_CHOICES_DICT (status self)))), w)
      else
        (case delete_by_node w self of
           (static_ips, w1) \<Rightarrow>
             (let macs = map mac_address (mac_addresses_on_managed_interfaces self);
                  leases = filter (\<lambda>(ng, address, mac). ng = nodegroup self \<and> mac \<in> set macs)
                                  (dhcplease_table w1);
                  leased_ips = map (\<lambda>(ng, address, mac). address) leases
              in case delete_host_maps e w1 self (remdups (static_ips @ leased_ips)) of
                   (Inl err, w2) \<Rightarrow> (Inl err, w2)
                 | (Inr _, w2) \<Rightarrow>
                     (Inr (),
                      w2\<lparr>dhcplease_table :=
                            filter (\<lambda>(ng, address, mac).
                                      mac \<notin> set (map mac_address (macaddress_set self)))
                                   (dhcplease_table w2),
                          node_table :=
                            filter (\<lambda>row. system_id row \<noteq> system_id self) (node_table w2)\<rparr>))))"

section \<open>Vocabulary of the properties\<close>

text \<open>
  A dispatch has failed when its deferred fires with a failure or has not fired when the
  timeout of the wait elapses; \<open>dispatch_failure\<close> is the failure it is collected with.
\<close>

definition dispatch_failed :: "deferred \<Rightarrow> bool" where
  "dispatch_failed d = (power_commands_timeout < fires_after d \<or> \<not> succeeds d)"

definition dispatch_failure :: "deferred \<Rightarrow> failure" where
  "dispatch_failure d = (if fires_after d \<le> power_commands_timeout then outcome d else timed_out)"

text \<open>
  The addresses linked to a node, whose host maps \<open>delete\<close> withdraws: its static
  addresses and the addresses leased, on its cluster, to its MAC addresses on managed
  interfaces.
\<close>

definition linked_addresses :: "world \<Rightarrow> node \<Rightarrow> ip list" where
  "linked_addresses w self =
     remdups
       (map fst (filter (\<lambda>(address, mac). mac \<in> set (map mac_address (macaddress_set self)))
                        (staticipaddress_table w))
        @ map (\<lambda>(ng, address, mac). address)
              (filter (\<lambda>(ng, address, mac).
                         ng = nodegroup self \<and>
                         mac \<in> set (map mac_address (mac_addresses_on_managed_interfaces self)))
                      (dhcplease_table w)))"

text \<open>The power-on calls among a list of calls.\<close>

fun is_power_on :: "event \<Rightarrow> bool" where
  "is_power_on (PowerOnNodes infos) = True"
| "is_power_on _ = False"

section \<open>A sample installation\<close>

text \<open>
  A concrete adjacency table, cluster and set of nodes, on which the theorems below are
  instantiated. The nodes live on cluster \<open>c1\<close>; the allocator has no address left for
  the MAC address \<open>aa\<close> and hands out \<open>10.0.0.5\<close> otherwise; every power-on dispatch
  fails after one second, and the removal of host maps fails.
\<close>

definition sample_transitions :: "node_status option \<rightharpoonup> node_status list" where
  "sample_transitions = map_of
     [(None, [NEW, READY, MISSING, RETIRED]),
      (Some NEW, [COMMISSIONING, MISSING, READY, RETIRED, BROKEN]),
      (Some COMMISSIONING, [FAILED_COMMISSIONING, READY, RETIRED, MISSING, NEW, BROKEN]),
      (Some READY, [COMMISSIONING, ALLOCATED, RESERVED, RETIRED, MISSING, BROKEN]),
      (Some ALLOCATED, [READY, RETIRED, MISSING, BROKEN, DEPLOYING, RELEASING, DISK_ERASING]),
      (Some DEPLOYING, [ALLOCATED, MISSING, FAILED_DEPLOYMENT, DEPLOYED, READY, RELEASING]),
      (Some RELEASING, [READY, BROKEN, MISSING, FAILED_RELEASING]),
      (Some DISK_ERASING, [FAILED_DISK_ERASING, READY, RELEASING])]"

definition sample_admin :: user where
  "sample_admin = \<lparr>username = ''admin'', is_superuser = True\<rparr>"

definition sample_mac :: "string \<Rightarrow> macaddress" where
  "sample_mac a = \<lparr>mac_address = a, created = 1,
                   cluster_interface = Some \<lparr>management = DHCP, is_managed = True\<rparr>\<rparr>"

definition sample_node :: "string \<Rightarrow> node_status \<Rightarrow> string \<Rightarrow> string \<Rightarrow> node" where
  "sample_node sid st ptype mac =
     \<lparr>system_id = sid, hostname = sid, status = st, owner = None, error_description = [],
      power_type = ptype, power_parameters = Map.empty, power_state = ON,
      nodegroup = ''c1'', pxe_mac = None, macaddress_set = [sample_mac mac]\<rparr>"

definition sample_world :: "node list \<Rightarrow> world" where
  "sample_world rows =
     \<lparr>node_table = rows, staticipaddress_table = [], dhcplease_table = [], calls = []\<rparr>"

definition sample_env :: env where
  "sample_env =
     \<lparr>NODE_TRANSITIONS = sample_transitions,
      QUERY_POWER_TYPES = [''ipmi'', ''virsh''],
      claim_static_ips = (\<lambda>table m. if mac_address m = ''aa'' then Exhaustion
                                      else Claimed [''10.0.0.5'']),
      update_host_maps = (\<lambda>sm. []),
      remove_host_maps = (\<lambda>rm. [''c1 unreachable'']),
      power_on_nodes = (\<lambda>infos. map (\<lambda>i. Deferred 1 False ''no power'') infos),
      power_off_nodes = (\<lambda>infos. map (\<lambda>i. Deferred 1 True ''ok'') infos),
      commissioning_user_data = (\<lambda>n. ''commission''),
      disk_erasing_user_data = (\<lambda>n. ''erase'')\<rparr>"

section \<open>Properties of the status machine\<close>


lemma find_append_new:
  "find P xs = None \<Longrightarrow> P x \<Longrightarrow> find P (xs @ [x]) = Some x"
  by (induction xs) (auto split: if_splits)

lemma find_map_replace:
  "find (\<lambda>r. f r = k) xs \<noteq> None \<Longrightarrow> f y = k \<Longrightarrow>
   find (\<lambda>r. f r = k) (map (\<lambda>r. if f r = k then y else r) xs) = Some y"
  by (induction xs) (auto split: if_splits)

lemma get_db_state_db_write:
  "get_db_state (db_write w self) self = Some self"
  unfolding get_db_state_def db_write_def
  by (simp add: find_append_new find_map_replace)

text \<open>
  C1. Validating a transition from \<open>current\<close> to \<open>requested\<close> succeeds exactly when
  \<open>requested = current\<close> or \<open>requested\<close> is among the successors that the adjacency
  table allows for \<open>current\<close>; every other pair fails with the \<open>InvalidTransition\<close>
  violation that names the current and the requested status. Persisting a node runs
  this validation against the stored status: a \<open>save\<close> that returns normally has
  stored the node and its status has passed validation, and a \<open>save\<close> that fails
  raises the validation's error and leaves the database as it was.
\<close>

theorem clean_status_validates_transition:
  "(clean_status e (Some current) requested = Inr ()
      \<longleftrightarrow> requested = current \<or> requested \<in> set (transitions_from e (Some current)))
   \<and> (clean_status e (Some current) requested \<noteq> Inr () \<longrightarrow>
        clean_status e (Some current) requested =
          Inl (NodeStateViolation (InvalidTransition (NODE_STATUS_CHOICES_DICT current)
                                                     (NODE_STATUS_CHOICES_DICT requested))))
   \<and> (case save e w self of
        (Inr _, w') \<Rightarrow>
          get_db_state w' self = Some self \<and>
          clean_status e (get_db_status w self) (status self) = Inr ()
      | (Inl err, w') \<Rightarrow>
          w' = w \<and> clean_status e (get_db_status w self) (status self) = Inl err)"
  by (auto simp: clean_status_def status_name_def save_def clean_def get_db_state_db_write
           split: sum.splits)

lemma sample_transitions_simps:
  "transitions_from sample_env (Some NEW) = [COMMISSIONING, MISSING, READY, RETIRED, BROKEN]"
  "transitions_from sample_env (Some COMMISSIONING) =
     [FAILED_COMMISSIONING, READY, RETIRED, MISSING, NEW, BROKEN]"
  "transitions_from sample_env (Some READY) =
     [COMMISSIONING, ALLOCATED, RESERVED, RETIRED, MISSING, BROKEN]"
  "transitions_from sample_env (Some ALLOCATED) =
     [READY, RETIRED, MISSING, BROKEN, DEPLOYING, RELEASING, DISK_ERASING]"
  "transitions_from sample_env (Some RELEASING) = [READY, BROKEN, MISSING, FAILED_RELEASING]"
  "transitions_from sample_env (Some DISK_ERASING) = [FAILED_DISK_ERASING, READY, RELEASING]"
  by (simp_all add: transitions_from_def sample_env_def sample_transitions_def)

lemma sample_db_status:
  "get_db_status (sample_world [sample_node sid st pt m]) (sample_node sid st' pt' m') = Some st"
  by (simp add: get_db_status_def get_db_state_def sample_world_def sample_node_def)

theorem clean_status_validates_transition_witness:
  "clean_status sample_env (Some NEW) COMMISSIONING = Inr ()
   \<and> clean_status sample_env (Some NEW) DEPLOYED =
       Inl (NodeStateViolation (InvalidTransition ''new'' ''deployed''))
   \<and> fst (save sample_env (sample_world [sample_node ''n1'' NEW ''ipmi'' ''aa''])
                (sample_node ''n1'' COMMISSIONING ''ipmi'' ''aa'')) = Inr ()
   \<and> save sample_env (sample_world [sample_node ''n1'' NEW ''ipmi'' ''aa''])
                (sample_node ''n1'' DEPLOYED ''ipmi'' ''aa'') =
       (Inl (NodeStateViolation (InvalidTransition ''new'' ''deployed'')),
        sample_world [sample_node ''n1'' NEW ''ipmi'' ''aa''])"
proof -
  let ?w = "sample_world [sample_node ''n1'' NEW ''ipmi'' ''aa'']"
  have a: "COMMISSIONING \<in> set (transitions_from sample_env (Some NEW))"
    and b: "DEPLOYED \<noteq> NEW \<and> DEPLOYED \<notin> set (transitions_from sample_env (Some NEW))"
    by (simp_all add: sample_transitions_simps)
  have st: "status (sample_node ''n1'' COMMISSIONING ''ipmi'' ''aa'') = COMMISSIONING"
           "status (sample_node ''n1'' DEPLOYED ''ipmi'' ''aa'') = DEPLOYED"
    by (simp_all add: sample_node_def)
  note t1 = clean_status_validates_transition
          [where e=sample_env and current=NEW and requested=COMMISSIONING
              and w="?w" and self="sample_node ''n1'' COMMISSIONING ''ipmi'' ''aa''"]
  note t2 = clean_status_validates_transition
          [where e=sample_env and current=NEW and requested=DEPLOYED
              and w="?w" and self="sample_node ''n1'' DEPLOYED ''ipmi'' ''aa''"]
  from t1 a have c1: "clean_status sample_env (Some NEW) COMMISSIONING = Inr ()" by blast
  from t2 b have c2: "clean_status sample_env (Some NEW) DEPLOYED =
       Inl (NodeStateViolation (InvalidTransition ''new'' ''deployed''))" by auto
  from c1 have s1: "fst (save sample_env ?w (sample_node ''n1'' COMMISSIONING ''ipmi'' ''aa'')) = Inr ()"
    by (simp add: save_def clean_def sample_db_status st)
  from c2 have s2: "save sample_env ?w (sample_node ''n1'' DEPLOYED ''ipmi'' ''aa'') =
       (Inl (NodeStateViolation (InvalidTransition ''new'' ''deployed'')), ?w)"
    by (simp add: save_def clean_def sample_db_status st)
  from c1 c2 s1 s2 show ?thesis by blast
qed


section \<open>Properties of marking a node failed\<close>

lemma get_failed_status_is_failed:
  "get_failed_status s = Some f \<Longrightarrow> is_failed_status f \<and> get_failed_status f = None"
  by (cases s) auto

lemma mark_failed_twice:
  assumes "mark_failed e w self d1 = (r1, w1, self1)"
      and "mark_failed e w1 self1 d2 = (r2, w2, self2)"
  shows "self2 = self1 \<and> w2 = w1
         \<and> (r1 = Inr () \<longrightarrow> is_failed_status (status self1) \<and> r2 = Inr ())"
proof (cases "get_failed_status (status self)")
  case None
  with assms show ?thesis
    by (auto simp: mark_failed_def split: if_splits)
next
  case (Some f)
  then have f: "is_failed_status f" "get_failed_status f = None"
    using get_failed_status_is_failed by blast+
  from Some assms(1) have s1: "self1 = self\<lparr>status := f, error_description := d1\<rparr>"
    by (auto simp: mark_failed_def Let_def split: prod.splits sum.splits)
  with f assms(2) show ?thesis
    by (auto simp: mark_failed_def)
qed

text \<open>
  C7. Calling \<open>mark_failed\<close> twice in a row: the second call changes neither the node
  nor the database, so the status after the second call is the status after the first.
  When the first call returns normally, that status is a failure status and the second
  call, made on an already failed node, returns normally as well: it is a silent no-op.
\<close>

theorem mark_failed_idempotent:
  "(case mark_failed e w self d1 of
      (r1, w1, self1) \<Rightarrow>
        (case mark_failed e w1 self1 d2 of
           (r2, w2, self2) \<Rightarrow>
             self2 = self1 \<and> w2 = w1 \<and> status self2 = status self1
             \<and> (r1 = Inr () \<longrightarrow> is_failed_status (status self1) \<and> r2 = Inr ())))"
proof -
  obtain r1 w1 self1 where a: "mark_failed e w self d1 = (r1, w1, self1)"
    by (cases "mark_failed e w self d1") auto
  obtain r2 w2 self2 where b: "mark_failed e w1 self1 d2 = (r2, w2, self2)"
    by (cases "mark_failed e w1 self1 d2") auto
  from mark_failed_twice [OF a b] a b show ?thesis by simp
qed

theorem mark_failed_idempotent_witness:
  "fst (mark_failed sample_env (sample_world [sample_node ''n1'' COMMISSIONING ''ipmi'' ''aa''])
          (sample_node ''n1'' COMMISSIONING ''ipmi'' ''aa'') ''stuck'') = Inr ()
   \<and> (case mark_failed sample_env
             (sample_world [sample_node ''n1'' COMMISSIONING ''ipmi'' ''aa''])
             (sample_node ''n1'' COMMISSIONING ''ipmi'' ''aa'') ''stuck'' of
         (r1, w1, self1) \<Rightarrow>
           status self1 = FAILED_COMMISSIONING \<and>
           mark_failed sample_env w1 self1 ''again'' = (Inr (), w1, self1))"
proof -
  let ?n = "sample_node ''n1'' COMMISSIONING ''ipmi'' ''aa''"
  let ?w = "sample_world [?n]"
  obtain r1 w1 self1 where a: "mark_failed sample_env ?w ?n ''stuck'' = (r1, w1, self1)"
    by (cases "mark_failed sample_env ?w ?n ''stuck''") auto
  obtain r2 w2 self2 where b: "mark_failed sample_env w1 self1 ''again'' = (r2, w2, self2)"
    by (cases "mark_failed sample_env w1 self1 ''again''") auto
  have st: "status ?n = COMMISSIONING" by (simp add: sample_node_def)
  have db: "get_db_status ?w (?n\<lparr>status := FAILED_COMMISSIONING, error_description := ''stuck''\<rparr>)
              = Some COMMISSIONING"
    by (simp add: get_db_status_def get_db_state_def sample_world_def sample_node_def)
  from a have r1: "r1 = Inr ()" and s1: "status self1 = FAILED_COMMISSIONING"
    by (auto simp: mark_failed_def st save_def clean_def db clean_status_def
                   sample_transitions_simps Let_def)
  from mark_failed_idempotent
          [where e=sample_env and w="?w" and self="?n" and ?d1.0="''stuck''" and ?d2.0="''again''"]
       a b r1
  have "self2 = self1 \<and> w2 = w1 \<and> r2 = Inr ()" by simp
  with a b r1 s1 show ?thesis by simp
qed


section \<open>Properties of the power capabilities\<close>

lemma setdefault_other: "k' \<noteq> k \<Longrightarrow> setdefault d k v k' = d k'"
  by (simp add: setdefault_def split: option.splits)

lemma effective_mac_address:
  "dict_get (get_effective_power_parameters self) ''mac_address'' =
     (case power_parameters self ''mac_address'' of
        Some v \<Rightarrow> v
      | None \<Rightarrow> (case get_primary_mac self of
                   Some m \<Rightarrow> JString (mac_address m) | None \<Rightarrow> JNull))"
  by (simp add: get_effective_power_parameters_def dict_get_def Let_def setdefault_other
           split: option.splits)

text \<open>
  C9. For every node: an unconfigured power type (the only one the code treats as
  unrecognised) yields \<open>can_be_started\<close>, \<open>can_be_stopped\<close> and \<open>can_be_queried\<close> all
  false, as a value and not as an exception; \<open>can_be_queried\<close> holds exactly when the
  power type is configured and in the registry \<open>QUERY_POWER_TYPES\<close>; and for the power
  type \<open>ether_wake\<close>, \<open>can_be_stopped\<close> is false and \<open>can_be_started\<close> holds exactly when
  a hardware address is configured, that is when the power parameter \<open>mac_address\<close> is
  neither empty nor null or, that parameter being absent, the node has a primary MAC
  address that is not empty.
\<close>

theorem effective_power_info_capabilities:
  "(power_type self = [] \<longrightarrow>
      get_effective_power_info e self =
        \<lparr>can_be_started = False, can_be_stopped = False, can_be_queried = False,
         info_power_type = None, info_power_parameters = None\<rparr>)
   \<and> can_be_queried (get_effective_power_info e self) =
        (power_type self \<noteq> [] \<and> power_type self \<in> set (QUERY_POWER_TYPES e))
   \<and> (power_type self = ''ether_wake'' \<longrightarrow>
        \<not> can_be_stopped (get_effective_power_info e self) \<and>
        can_be_started (get_effective_power_info e self) =
          (case power_parameters self ''mac_address'' of
             Some v \<Rightarrow> v \<noteq> JString [] \<and> v \<noteq> JNull
           | None \<Rightarrow> (case get_primary_mac self of
                        Some m \<Rightarrow> mac_address m \<noteq> [] | None \<Rightarrow> False)))"
  by (auto simp: get_effective_power_info_def get_effective_power_type_def Let_def
                 effective_mac_address split: option.splits)

lemma sample_node_power:
  "power_type (sample_node sid st pt m) = pt"
  "power_parameters (sample_node sid st pt m) = Map.empty"
  "get_primary_mac (sample_node sid st pt m) = Some (sample_mac m)"
  "mac_address (sample_mac m) = m"
  "QUERY_POWER_TYPES sample_env = [''ipmi'', ''virsh'']"
  by (simp_all add: sample_node_def sample_mac_def get_primary_mac_def sample_env_def)

theorem effective_power_info_capabilities_witness:
  "get_effective_power_info sample_env (sample_node ''n1'' NEW [] ''aa'') =
        \<lparr>can_be_started = False, can_be_stopped = False, can_be_queried = False,
         info_power_type = None, info_power_parameters = None\<rparr>
   \<and> can_be_queried (get_effective_power_info sample_env (sample_node ''n1'' NEW ''ipmi'' ''aa''))
   \<and> \<not> can_be_stopped
         (get_effective_power_info sample_env (sample_node ''n1'' NEW ''ether_wake'' ''aa''))
   \<and> can_be_started
         (get_effective_power_info sample_env (sample_node ''n1'' NEW ''ether_wake'' ''aa''))
   \<and> \<not> can_be_started
         (get_effective_power_info sample_env (sample_node ''n1'' NEW ''ether_wake'' []))"
  using effective_power_info_capabilities
          [where self="sample_node ''n1'' NEW [] ''aa''" and e=sample_env]
        effective_power_info_capabilities
          [where self="sample_node ''n1'' NEW ''ipmi'' ''aa''" and e=sample_env]
        effective_power_info_capabilities
          [where self="sample_node ''n1'' NEW ''ether_wake'' ''aa''" and e=sample_env]
        effective_power_info_capabilities
          [where self="sample_node ''n1'' NEW ''ether_wake'' []" and e=sample_env]
  by (simp add: sample_node_power)

section \<open>Properties of the observed power state\<close>

text \<open>
  C10. \<open>update_power_state\<close> with a reported power state \<open>p\<close> sets the observed power
  state of the node to \<open>p\<close>; it sets the status to ready and clears the owner exactly
  when the status was releasing and \<open>p\<close> is off, and otherwise changes no other field.
  The node so updated is the stored row when the call returns normally, and the database
  is untouched when it does not.
\<close>

theorem update_power_state_frame:
  "(case update_power_state e w self p of
      (r, w', self') \<Rightarrow>
        self' = (if status self = RELEASING \<and> p = OFF
                 then self\<lparr>power_state := p, status := READY, owner := None\<rparr>
                 else self\<lparr>power_state := p\<rparr>)
        \<and> (r = Inr () \<longrightarrow> get_db_state w' self = Some self')
        \<and> (r \<noteq> Inr () \<longrightarrow> w' = w))"
  by (auto simp: update_power_state_def Let_def save_def get_db_state_db_write split: sum.splits)
     (auto simp: get_db_state_def db_write_def find_append_new find_map_replace)

theorem update_power_state_frame_witness:
  "(case update_power_state sample_env
           (sample_world [sample_node ''n1'' RELEASING ''ipmi'' ''aa''])
           (sample_node ''n1'' RELEASING ''ipmi'' ''aa'') OFF of
      (r, w', self') \<Rightarrow>
        r = Inr () \<and> status self' = READY \<and> owner self' = None \<and> power_state self' = OFF
        \<and> get_db_state w' self' = Some self')
   \<and> (case update_power_state sample_env
           (sample_world [sample_node ''n1'' RELEASING ''ipmi'' ''aa''])
           (sample_node ''n1'' RELEASING ''ipmi'' ''aa'') UNKNOWN of
      (r, w', self') \<Rightarrow>
        r = Inr () \<and> status self' = RELEASING \<and> power_state self' = UNKNOWN)"
proof -
  let ?n = "sample_node ''n1'' RELEASING ''ipmi'' ''aa''"
  let ?w = "sample_world [?n]"
  have st: "status ?n = RELEASING" by (simp add: sample_node_def)
  have db: "\<And>f. get_db_status ?w (?n\<lparr>power_state := f\<rparr>) = Some RELEASING"
           "\<And>f. get_db_status ?w (?n\<lparr>power_state := f, status := READY, owner := None\<rparr>)
                  = Some RELEASING"
    by (simp_all add: get_db_status_def get_db_state_def sample_world_def sample_node_def)
  have id: "\<And>x. get_db_state x (?n\<lparr>power_state := OFF, status := READY, owner := None\<rparr>)
                 = get_db_state x ?n"
    by (simp add: get_db_state_def)
  have r1: "fst (update_power_state sample_env ?w ?n OFF) = Inr ()"
    by (simp add: update_power_state_def st save_def clean_def db clean_status_def
                  sample_transitions_simps Let_def)
  have r2: "fst (update_power_state sample_env ?w ?n UNKNOWN) = Inr ()"
    by (simp add: update_power_state_def st save_def clean_def db clean_status_def Let_def)
  from update_power_state_frame [where e=sample_env and w="?w" and self="?n" and p=OFF] r1
  have a: "(case update_power_state sample_env ?w ?n OFF of
      (r, w', self') \<Rightarrow>
        r = Inr () \<and> status self' = READY \<and> owner self' = None \<and> power_state self' = OFF
        \<and> get_db_state w' self' = Some self')"
    by (auto simp: st id split: prod.splits)
  from update_power_state_frame [where e=sample_env and w="?w" and self="?n" and p=UNKNOWN] r2
  have b: "(case update_power_state sample_env ?w ?n UNKNOWN of
      (r, w', self') \<Rightarrow>
        r = Inr () \<and> status self' = RELEASING \<and> power_state self' = UNKNOWN)"
    by (auto simp: st split: prod.splits)
  from a b show ?thesis by blast
qed


section \<open>Properties of address claims\<close>

text \<open>
  C8. \<open>claim_static_ip_addresses\<close> returns the empty claim, without error and without
  touching the database, when the node has neither a recorded PXE MAC address nor any
  other MAC address, and also when the allocator reports a clash of address types. In
  every other case the claim is all or nothing: either the allocator is out of addresses,
  the exhaustion error is raised and no address is claimed, or every address the
  allocator hands out is claimed and returned with the MAC address. The rows added to the
  static address table are always exactly the pairs returned.
\<close>

theorem claim_static_ip_addresses_all_or_nothing:
  "(get_pxe_mac self = None \<longleftrightarrow> pxe_mac self = None \<and> macaddress_set self = [])
   \<and> (get_pxe_mac self = None \<longrightarrow> claim_static_ip_addresses e w self = (Inr [], w))
   \<and> (\<forall>mac. get_pxe_mac self = Some mac \<longrightarrow>
         claim_static_ip_addresses e w self =
           (case claim_static_ips e (staticipaddress_table w) mac of
              TypeClash \<Rightarrow> (Inr [], w)
            | Exhaustion \<Rightarrow> (Inl StaticIPAddressExhaustion, w)
            | Claimed ips \<Rightarrow>
                (Inr (map (\<lambda>a. (a, mac_address mac)) ips),
                 w\<lparr>staticipaddress_table :=
                     staticipaddress_table w @ map (\<lambda>a. (a, mac_address mac)) ips\<rparr>)))
   \<and> (case claim_static_ip_addresses e w self of
         (r, w') \<Rightarrow>
           w' = w\<lparr>staticipaddress_table :=
                    staticipaddress_table w @ (case r of Inl err \<Rightarrow> [] | Inr claims \<Rightarrow> claims)\<rparr>)"
  by (auto simp: claim_static_ip_addresses_def get_pxe_mac_def Let_def
           split: option.splits list.splits claim_outcome.splits)

lemma sample_claims:
  "get_pxe_mac (sample_node sid st pt m) = Some (sample_mac m)"
  "claim_static_ips sample_env t (sample_mac ''aa'') = Exhaustion"
  "claim_static_ips sample_env t (sample_mac ''bb'') = Claimed [''10.0.0.5'']"
  by (simp_all add: get_pxe_mac_def sample_node_def sample_env_def sample_mac_def)

theorem claim_static_ip_addresses_all_or_nothing_witness:
  "claim_static_ip_addresses sample_env (sample_world []) (sample_node ''n1'' ALLOCATED ''ipmi'' ''aa'')
     = (Inl StaticIPAddressExhaustion, sample_world [])
   \<and> claim_static_ip_addresses sample_env (sample_world []) (sample_node ''n2'' ALLOCATED ''ipmi'' ''bb'')
     = (Inr [(''10.0.0.5'', ''bb'')],
        (sample_world [])\<lparr>staticipaddress_table := [(''10.0.0.5'', ''bb'')]\<rparr>)
   \<and> claim_static_ip_addresses sample_env (sample_world [])
        ((sample_node ''n3'' ALLOCATED ''ipmi'' ''cc'')\<lparr>macaddress_set := []\<rparr>)
     = (Inr [], sample_world [])"
proof -
  have none: "get_pxe_mac ((sample_node ''n3'' ALLOCATED ''ipmi'' ''cc'')\<lparr>macaddress_set := []\<rparr>) = None"
    by (simp add: get_pxe_mac_def sample_node_def)
  have tbl: "staticipaddress_table (sample_world []) = []"
    by (simp add: sample_world_def)
  from claim_static_ip_addresses_all_or_nothing
         [where self="sample_node ''n1'' ALLOCATED ''ipmi'' ''aa''" and e=sample_env
            and w="sample_world []"]
  have a: "claim_static_ip_addresses sample_env (sample_world [])
             (sample_node ''n1'' ALLOCATED ''ipmi'' ''aa'') = (Inl StaticIPAddressExhaustion, sample_world [])"
    by (simp add: sample_claims)
  from claim_static_ip_addresses_all_or_nothing
         [where self="sample_node ''n2'' ALLOCATED ''ipmi'' ''bb''" and e=sample_env
            and w="sample_world []"]
  have b: "claim_static_ip_addresses sample_env (sample_world [])
             (sample_node ''n2'' ALLOCATED ''ipmi'' ''bb'')
     = (Inr [(''10.0.0.5'', ''bb'')],
        (sample_world [])\<lparr>staticipaddress_table := [(''10.0.0.5'', ''bb'')]\<rparr>)"
    by (simp add: sample_claims tbl sample_node_power)
  from claim_static_ip_addresses_all_or_nothing
         [where self="(sample_node ''n3'' ALLOCATED ''ipmi'' ''cc'')\<lparr>macaddress_set := []\<rparr>"
            and e=sample_env and w="sample_world []"] none
  have c: "claim_static_ip_addresses sample_env (sample_world [])
        ((sample_node ''n3'' ALLOCATED ''ipmi'' ''cc'')\<lparr>macaddress_set := []\<rparr>)
     = (Inr [], sample_world [])"
    by blast
  from a b c show ?thesis by blast
qed


section \<open>Properties of deleting a node\<close>

lemma delete_unfolded:
  "status self \<noteq> ALLOCATED \<Longrightarrow>
   delete e w self =
     (case delete_host_maps e
             (w\<lparr>staticipaddress_table :=
                  filter (\<lambda>(address, mac). mac \<notin> set (map mac_address (macaddress_set self)))
                         (staticipaddress_table w)\<rparr>)
             self (linked_addresses w self) of
        (Inl err, w2) \<Rightarrow> (Inl err, w2)
      | (Inr _, w2) \<Rightarrow>
          (Inr (),
           w2\<lparr>dhcplease_table :=
                 filter (\<lambda>(ng, address, mac). mac \<notin> set (map mac_address (macaddress_set self)))
                        (dhcplease_table w2),
               node_table := filter (\<lambda>row. system_id row \<noteq> system_id self) (node_table w2)\<rparr>))"
  by (simp add: delete_def delete_by_node_def linked_addresses_def Let_def)

lemma delete_host_maps_tables:
  "delete_host_maps e w self ips = (r, w') \<Longrightarrow>
   node_table w' = node_table w \<and> dhcplease_table w' = dhcplease_table w
   \<and> staticipaddress_table w' = staticipaddress_table w"
  by (auto simp: delete_host_maps_def Let_def split: if_splits)

text \<open>
  C6. Deleting a node whose status is allocated fails with the violation that refuses the
  delete, and nothing changes: no remote call is issued, no address is released and every
  record is as before. For a node in any other status, when the withdrawal of the host
  maps of its linked addresses fails, the delete fails with the aggregated failures of
  that withdrawal and the node table is left as it was. No failed delete removes or
  changes a row of the node table.
\<close>

theorem delete_refused_or_record_intact:
  "(status self = ALLOCATED \<longrightarrow>
      delete e w self =
        (Inl (NodeStateViolation (CannotDelete (system_id self) ''allocated'')), w))
   \<and> (status self \<noteq> ALLOCATED \<and> linked_addresses w self \<noteq> [] \<and>
       remove_host_maps e [(nodegroup self, linked_addresses w self)] \<noteq> [] \<longrightarrow>
         fst (delete e w self) =
           Inl (MultipleFailures (remove_host_maps e [(nodegroup self, linked_addresses w self)]))
         \<and> node_table (snd (delete e w self)) = node_table w)
   \<and> (\<forall>err w'. delete e w self = (Inl err, w') \<longrightarrow> node_table w' = node_table w)"
proof (intro conjI impI allI)
  assume "status self = ALLOCATED"
  then show "delete e w self =
        (Inl (NodeStateViolation (CannotDelete (system_id self) ''allocated'')), w)"
    by (simp add: delete_def)
next
  assume a: "status self \<noteq> ALLOCATED \<and> linked_addresses w self \<noteq> [] \<and>
       remove_host_maps e [(nodegroup self, linked_addresses w self)] \<noteq> []"
  then show "fst (delete e w self) =
           Inl (MultipleFailures (remove_host_maps e [(nodegroup self, linked_addresses w self)]))"
    by (simp add: delete_unfolded delete_host_maps_def Let_def)
  from a show "node_table (snd (delete e w self)) = node_table w"
    by (simp add: delete_unfolded delete_host_maps_def Let_def)
next
  fix err w'
  assume d: "delete e w self = (Inl err, w')"
  show "node_table w' = node_table w"
  proof (cases "status self = ALLOCATED")
    case True
    with d show ?thesis by (simp add: delete_def)
  next
    case False
    obtain r w2 where h: "delete_host_maps e
             (w\<lparr>staticipaddress_table :=
                  filter (\<lambda>(address, mac). mac \<notin> set (map mac_address (macaddress_set self)))
                         (staticipaddress_table w)\<rparr>)
             self (linked_addresses w self) = (r, w2)"
      by (cases "delete_host_maps e
             (w\<lparr>staticipaddress_table :=
                  filter (\<lambda>(address, mac). mac \<notin> set (map mac_address (macaddress_set self)))
                         (staticipaddress_table w)\<rparr>)
             self (linked_addresses w self)") auto
    from delete_host_maps_tables [OF h] have t: "node_table w2 = node_table w" by simp
    from d False h have "w' = w2" by (cases r) (auto simp: delete_unfolded)
    with t show ?thesis by simp
  qed
qed

theorem delete_refused_or_record_intact_witness:
  "delete sample_env (sample_world [sample_node ''n1'' ALLOCATED ''ipmi'' ''aa''])
       (sample_node ''n1'' ALLOCATED ''ipmi'' ''aa'') =
     (Inl (NodeStateViolation (CannotDelete ''n1'' ''allocated'')),
      sample_world [sample_node ''n1'' ALLOCATED ''ipmi'' ''aa''])
   \<and> fst (delete sample_env
            ((sample_world [sample_node ''n2'' READY ''ipmi'' ''bb''])
               \<lparr>staticipaddress_table := [(''10.0.0.9'', ''bb'')]\<rparr>)
            (sample_node ''n2'' READY ''ipmi'' ''bb'')) =
       Inl (MultipleFailures [''c1 unreachable''])
   \<and> node_table (snd (delete sample_env
            ((sample_world [sample_node ''n2'' READY ''ipmi'' ''bb''])
               \<lparr>staticipaddress_table := [(''10.0.0.9'', ''bb'')]\<rparr>)
            (sample_node ''n2'' READY ''ipmi'' ''bb''))) =
       [sample_node ''n2'' READY ''ipmi'' ''bb'']"
proof -
  let ?n1 = "sample_node ''n1'' ALLOCATED ''ipmi'' ''aa''"
  let ?n2 = "sample_node ''n2'' READY ''ipmi'' ''bb''"
  let ?w2 = "(sample_world [?n2])\<lparr>staticipaddress_table := [(''10.0.0.9'', ''bb'')]\<rparr>"
  have st: "status ?n1 = ALLOCATED" "status ?n2 = READY" "system_id ?n1 = ''n1''"
           "nodegroup ?n2 = ''c1''"
    by (simp_all add: sample_node_def)
  have la: "linked_addresses ?w2 ?n2 = [''10.0.0.9'']"
    by (simp add: linked_addresses_def sample_world_def sample_node_def sample_mac_def
                  mac_addresses_on_managed_interfaces_def)
  have rm: "\<And>x. remove_host_maps sample_env x = [''c1 unreachable'']"
    by (simp add: sample_env_def)
  have nt: "node_table ?w2 = [?n2]" by (simp add: sample_world_def)
  from delete_refused_or_record_intact
         [where self="?n1" and e=sample_env and w="sample_world [?n1]"] st
  have a: "delete sample_env (sample_world [?n1]) ?n1 =
     (Inl (NodeStateViolation (CannotDelete ''n1'' ''allocated'')), sample_world [?n1])"
    by simp
  from delete_refused_or_record_intact [where self="?n2" and e=sample_env and w="?w2"]
  have b: "fst (delete sample_env ?w2 ?n2) = Inl (MultipleFailures [''c1 unreachable''])
           \<and> node_table (snd (delete sample_env ?w2 ?n2)) = [?n2]"
    by (simp add: st la rm nt)
  from a b show ?thesis by blast
qed


section \<open>Properties of the batch power operations\<close>

lemma failures_of_results:
  "map snd (filter (\<lambda>(success, result). \<not> success) (block_until_commands_complete ds)) =
     map dispatch_failure (filter dispatch_failed ds)"
  by (induction ds)
     (auto simp: block_until_commands_complete_def asynchronous_DeferredList_def
                 dispatch_failure_def dispatch_failed_def)

lemma wait_for_power_commands_eq:
  "wait_for_power_commands ds =
     (if \<exists>d \<in> set ds. dispatch_failed d
      then Inl (MultipleFailures (map dispatch_failure (filter dispatch_failed ds)))
      else Inr ())"
  unfolding wait_for_power_commands_def Let_def failures_of_results
  by (auto simp: filter_empty_conv)

text \<open>
  C2. The wait of a batch power operation is one call bounded by 30 seconds that yields a
  result for every deferred of the batch. \<open>wait_for_power_commands\<close> raises
  \<open>MultipleFailures\<close> exactly when at least one dispatch failed or timed out, and the
  error carries the failure of every such dispatch, in order. \<open>stop_nodes\<close> issues its
  power-off dispatch and then ends with that outcome: the aggregated error when a dispatch
  failed or timed out, the nodes it acted upon otherwise. \<open>start_nodes\<close> does the same
  with its power-on dispatch once the claims and the host maps are through.
\<close>

theorem wait_for_power_commands_aggregates:
  "power_commands_timeout = 30
   \<and> length (block_until_commands_complete ds) = length ds
   \<and> ((\<exists>fs. wait_for_power_commands ds = Inl (MultipleFailures fs))
        \<longleftrightarrow> (\<exists>d \<in> set ds. dispatch_failed d))
   \<and> wait_for_power_commands ds =
       (if \<exists>d \<in> set ds. dispatch_failed d
        then Inl (MultipleFailures (map dispatch_failure (filter dispatch_failed ds)))
        else Inr ())
   \<and> (let nodes = get_nodes w usr EDIT ids;
           infos = nodes_stop_info e stop_mode nodes;
           ds_off = power_off_nodes e infos
       in stop_nodes e w ids usr stop_mode =
            ((if \<exists>d \<in> set ds_off. dispatch_failed d
              then Inl (MultipleFailures (map dispatch_failure (filter dispatch_failed ds_off)))
              else Inr (filter (\<lambda>n. system_id n \<in> set (powered_systems infos)) nodes)),
             w\<lparr>calls := calls w @ [PowerOffNodes infos]\<rparr>))
   \<and> (claim_and_deploy e (get_nodes w usr EDIT ids) []
          (w\<lparr>calls := calls w @
                 [BulkSetUserData (map system_id (get_nodes w usr EDIT ids)) user_data]\<rparr>)
          = (Inr (nodes', sm), w1)
        \<and> update_host_maps e sm = [] \<longrightarrow>
        (let infos = nodes_start_info e nodes';
             ds_on = power_on_nodes e infos
         in start_nodes e w ids usr user_data =
              ((if \<exists>d \<in> set ds_on. dispatch_failed d
                then Inl (MultipleFailures (map dispatch_failure (filter dispatch_failed ds_on)))
                else Inr (filter (\<lambda>n. system_id n \<in> set (powered_systems infos)) nodes')),
               w1\<lparr>calls := calls w1 @ [UpdateHostMaps sm,
                                       ChangeDnsZones (remdups (map nodegroup nodes')),
                                       PowerOnNodes infos]\<rparr>)))"
  by (auto simp: power_commands_timeout_def block_until_commands_complete_def
                 asynchronous_DeferredList_def wait_for_power_commands_eq
                 stop_nodes_def start_nodes_def sync_and_power_on_def Let_def)


lemma sample_power:
  "power_on_nodes sample_env infos = map (\<lambda>i. Deferred 1 False ''no power'') infos"
  "power_off_nodes sample_env infos = map (\<lambda>i. Deferred 1 True ''ok'') infos"
  "update_host_maps sample_env sm = []"
  "can_be_started (get_effective_power_info sample_env (sample_node sid st ''ipmi'' m))"
  "can_be_stopped (get_effective_power_info sample_env (sample_node sid st ''ipmi'' m))"
  by (simp_all add: sample_env_def get_effective_power_info_def get_effective_power_type_def
                    sample_node_def Let_def)

lemma sample_get_nodes:
  "get_nodes (sample_world [sample_node sid st pt m]) (Some sample_admin) EDIT (Some [sid])
     = [sample_node sid st pt m]"
  by (simp add: get_nodes_def filter_by_ids_def filter_visible_nodes_def sample_world_def
                sample_admin_def sample_node_def)

lemma claim_and_deploy_not_allocated:
  "status n \<noteq> ALLOCATED \<Longrightarrow> claim_and_deploy e [n] sm w = (Inr ([n], sm), w)"
  by simp

theorem wait_for_power_commands_aggregates_witness:
  "wait_for_power_commands
      [Deferred 1 True ''ok'', Deferred 2 False ''no power'', Deferred 31 True ''late'']
     = Inl (MultipleFailures [''no power'', ''timed out''])
   \<and> wait_for_power_commands [Deferred 1 True ''ok'', Deferred 30 True ''ok''] = Inr ()
   \<and> fst (start_nodes sample_env (sample_world [sample_node ''n1'' COMMISSIONING ''ipmi'' ''aa''])
             (Some [''n1'']) (Some sample_admin) None)
     = Inl (MultipleFailures [''no power''])"
proof -
  let ?n = "sample_node ''n1'' COMMISSIONING ''ipmi'' ''aa''"
  let ?w0 = "(sample_world [?n])\<lparr>calls := calls (sample_world [?n]) @
                 [BulkSetUserData (map system_id [?n]) None]\<rparr>"
  have st: "status ?n \<noteq> ALLOCATED" by (simp add: sample_node_def)
  note t = wait_for_power_commands_aggregates
             [where e=sample_env and sm="[]" and nodes'="[?n]" and w="sample_world [?n]"
                and usr="Some sample_admin" and ids="Some [''n1'']" and stop_mode="[]"
                and user_data=None and ?w1.0="?w0"]
  from t [where ds="[Deferred 1 True ''ok'', Deferred 2 False ''no power'', Deferred 31 True ''late'']"]
  have a: "wait_for_power_commands
      [Deferred 1 True ''ok'', Deferred 2 False ''no power'', Deferred 31 True ''late'']
     = Inl (MultipleFailures [''no power'', ''timed out''])"
    by (simp add: dispatch_failed_def dispatch_failure_def timed_out_def
                  power_commands_timeout_def)
  from t [where ds="[Deferred 1 True ''ok'', Deferred 30 True ''ok'']"]
  have b: "wait_for_power_commands [Deferred 1 True ''ok'', Deferred 30 True ''ok''] = Inr ()"
    by (simp add: dispatch_failed_def power_commands_timeout_def)
  have cd: "claim_and_deploy sample_env
              (get_nodes (sample_world [?n]) (Some sample_admin) EDIT (Some [''n1''])) []
              ((sample_world [?n])\<lparr>calls := calls (sample_world [?n]) @
                 [BulkSetUserData (map system_id
                    (get_nodes (sample_world [?n]) (Some sample_admin) EDIT (Some [''n1''])))
                    None]\<rparr>)
            = (Inr ([?n], []), ?w0)"
    unfolding sample_get_nodes by (rule claim_and_deploy_not_allocated [OF st])
  from t [where ds="[]"] cd
  have c: "fst (start_nodes sample_env (sample_world [?n]) (Some [''n1'']) (Some sample_admin) None)
     = Inl (MultipleFailures [''no power''])"
    by (simp add: sample_power nodes_start_info_def Let_def dispatch_failed_def
                  dispatch_failure_def power_commands_timeout_def power_request_of_def)
  from a b c show ?thesis by blast
qed


section \<open>What the power-on batch changes\<close>

lemma find_filter_conv:
  "find P xs = (case filter P xs of [] \<Rightarrow> None | x # _ \<Rightarrow> Some x)"
  by (induction xs) auto

lemma get_db_state_rows:
  "get_db_state w x =
     (case filter (\<lambda>row. system_id row = system_id x) (node_table w) of
        [] \<Rightarrow> None | r # _ \<Rightarrow> Some r)"
  by (simp add: get_db_state_def find_filter_conv)

lemma filter_map_replace_other:
  "system_id n \<noteq> sid \<Longrightarrow>
   filter (\<lambda>row. system_id row = sid)
          (map (\<lambda>row. if system_id row = system_id n then n else row) xs) =
   filter (\<lambda>row. system_id row = sid) xs"
  by (induction xs) auto

lemma db_write_rows_other:
  "system_id n \<noteq> sid \<Longrightarrow>
   filter (\<lambda>row. system_id row = sid) (node_table (db_write w n)) =
   filter (\<lambda>row. system_id row = sid) (node_table w)"
  by (simp add: db_write_def filter_map_replace_other)

lemma db_write_rows_same:
  "set (filter (\<lambda>row. system_id row = system_id n) (node_table (db_write w n))) = {n}"
proof (cases "get_db_state w n = None")
  case True
  then have "filter (\<lambda>row. system_id row = system_id n) (node_table w) = []"
    by (simp add: get_db_state_rows split: list.splits)
  with True show ?thesis by (simp add: db_write_def)
next
  case False
  then obtain r where "r \<in> set (node_table w)" "system_id r = system_id n"
    by (auto simp: get_db_state_def find_None_iff)
  with False show ?thesis
    by (auto simp: db_write_def)
qed

lemma db_write_other_fields:
  "staticipaddress_table (db_write w n) = staticipaddress_table w"
  "dhcplease_table (db_write w n) = dhcplease_table w"
  "calls (db_write w n) = calls w"
  by (simp_all add: db_write_def)

lemma save_ok:
  "save e w n = (Inr u, w1) \<Longrightarrow> w1 = db_write w n \<and> clean e w n = Inr ()"
  by (cases "clean e w n") (auto simp: save_def)

lemma save_err:
  "save e w n = (Inl err, w1) \<Longrightarrow> w1 = w \<and> clean e w n = Inl err"
  by (cases "clean e w n") (auto simp: save_def)

lemma save_cases:
  "save e w n = (r, w1) \<Longrightarrow> w1 = db_write w n \<or> w1 = w"
  by (cases r) (auto dest: save_ok save_err)

lemma claim_static_keeps:
  "claim_static_ip_addresses e w n = (r, w1) \<Longrightarrow>
   node_table w1 = node_table w \<and> calls w1 = calls w
   \<and> dhcplease_table w1 = dhcplease_table w"
  by (auto simp: claim_static_ip_addresses_def Let_def
           split: option.splits claim_outcome.splits)

lemma start_deployment_rows:
  assumes "start_deployment e w n = (r, w1, n')" and "system_id n \<noteq> sid"
  shows "filter (\<lambda>row. system_id row = sid) (node_table w1) =
         filter (\<lambda>row. system_id row = sid) (node_table w)"
proof -
  obtain r0 w0 where s: "save e w (n\<lparr>status := DEPLOYING\<rparr>) = (r0, w0)"
    by (cases "save e w (n\<lparr>status := DEPLOYING\<rparr>)") auto
  from save_cases [OF s] assms(2)
  have "filter (\<lambda>row. system_id row = sid) (node_table w0) =
        filter (\<lambda>row. system_id row = sid) (node_table w)"
    by (auto simp: db_write_rows_other)
  moreover from assms(1) s have "node_table w1 = node_table w0"
    by (cases r0) (auto simp: start_deployment_def Let_def start_transition_monitor_def)
  ultimately show ?thesis by simp
qed

lemma start_deployment_calls:
  assumes "start_deployment e w n = (r, w1, n')"
  shows "filter is_power_on (calls w1) = filter is_power_on (calls w)"
proof -
  obtain r0 w0 where s: "save e w (n\<lparr>status := DEPLOYING\<rparr>) = (r0, w0)"
    by (cases "save e w (n\<lparr>status := DEPLOYING\<rparr>)") auto
  from save_cases [OF s] have "calls w0 = calls w"
    by (auto simp: db_write_other_fields)
  with assms s show ?thesis
    by (cases r0) (auto simp: start_deployment_def Let_def start_transition_monitor_def)
qed



lemma cad_skip:
  "status n \<noteq> ALLOCATED \<Longrightarrow> claim_and_deploy e rest sm w = (r3, w3) \<Longrightarrow>
   claim_and_deploy e (n # rest) sm w =
     (case r3 of Inl err \<Rightarrow> (Inl err, w3)
               | Inr (nodes', sm2) \<Rightarrow> (Inr (n # nodes', sm2), w3))"
  by (simp split: sum.splits prod.splits)


lemma cad_claim_fails:
  "status n = ALLOCATED \<Longrightarrow> claim_static_ip_addresses e w n = (Inl err, w1) \<Longrightarrow>
   claim_and_deploy e (n # rest) sm w = (Inl err, w1)"
  by simp


lemma cad_deploy_fails:
  "status n = ALLOCATED \<Longrightarrow> claim_static_ip_addresses e w n = (Inr claims, w1) \<Longrightarrow>
   start_deployment e w1 n = (Inl err, w2, n') \<Longrightarrow>
   claim_and_deploy e (n # rest) sm w = (Inl err, w2)"
  by (simp add: Let_def)


lemma cad_step:
  "status n = ALLOCATED \<Longrightarrow> claim_static_ip_addresses e w n = (Inr claims, w1) \<Longrightarrow>
   start_deployment e w1 n = (Inr u, w2, n') \<Longrightarrow>
   claim_and_deploy e rest
      (if is_pxe_mac_on_managed_interface n
       then static_mappings_update sm (nodegroup n) claims else sm) w2 = (r3, w3) \<Longrightarrow>
   claim_and_deploy e (n # rest) sm w =
     (case r3 of Inl err \<Rightarrow> (Inl err, w3)
               | Inr (nodes', sm2) \<Rightarrow> (Inr (n' # nodes', sm2), w3))"
  by (simp add: Let_def split: sum.splits prod.splits)


lemma case_result_world:
  "(case r3 of Inl err \<Rightarrow> (Inl err, w3)
             | Inr (nodes', sm2) \<Rightarrow> (Inr (f nodes', sm2), w3)) = (r, w') \<Longrightarrow> w' = w3"
  by (cases r3) (auto split: prod.splits)


lemma claim_and_deploy_rows:
  "claim_and_deploy e nodes sm w = (r, w') \<Longrightarrow>
   \<forall>n \<in> set nodes. status n = ALLOCATED \<longrightarrow> system_id n \<noteq> sid \<Longrightarrow>
   filter (\<lambda>row. system_id row = sid) (node_table w') =
   filter (\<lambda>row. system_id row = sid) (node_table w)"
proof (induction nodes arbitrary: sm w r w')
  case Nil
  then show ?case by simp
next
  case (Cons n rest)
  from Cons.prems(2) have rest: "\<forall>n \<in> set rest. status n = ALLOCATED \<longrightarrow> system_id n \<noteq> sid"
    by simp
  show ?case
  proof (cases "status n = ALLOCATED")
    case False
    obtain r3 w3 where rec: "claim_and_deploy e rest sm w = (r3, w3)"
      by (cases "claim_and_deploy e rest sm w") auto
    from Cons.prems(1) have "w' = w3"
      unfolding cad_skip [OF False rec] by (rule case_result_world)
    with Cons.IH [OF rec rest] show ?thesis by simp
  next
    case True
    with Cons.prems(2) have ne: "system_id n \<noteq> sid" by simp
    obtain rc w1 where c: "claim_static_ip_addresses e w n = (rc, w1)"
      by (cases "claim_static_ip_addresses e w n") auto
    note k = claim_static_keeps [OF c]
    show ?thesis
    proof (cases rc)
      case (Inl err)
      with c have c': "claim_static_ip_addresses e w n = (Inl err, w1)" by simp
      from Cons.prems(1) have "w' = w1"
        unfolding cad_claim_fails [OF True c'] by simp
      with k show ?thesis by simp
    next
      case (Inr claims)
      with c have c': "claim_static_ip_addresses e w n = (Inr claims, w1)" by simp
      obtain rd w2 n' where d: "start_deployment e w1 n = (rd, w2, n')"
        by (cases "start_deployment e w1 n") auto
      from start_deployment_rows [OF d ne] k
      have r2: "filter (\<lambda>row. system_id row = sid) (node_table w2) =
                filter (\<lambda>row. system_id row = sid) (node_table w)" by simp
      show ?thesis
      proof (cases rd)
        case (Inl err)
        with d have d': "start_deployment e w1 n = (Inl err, w2, n')" by simp
        from Cons.prems(1) have "w' = w2"
          unfolding cad_deploy_fails [OF True c' d'] by simp
        with r2 show ?thesis by simp
      next
        case (Inr u)
        with d have d': "start_deployment e w1 n = (Inr u, w2, n')" by simp
        let ?sm1 = "if is_pxe_mac_on_managed_interface n
                    then static_mappings_update sm (nodegroup n) claims else sm"
        obtain r3 w3 where rec: "claim_and_deploy e rest ?sm1 w2 = (r3, w3)"
          by (cases "claim_and_deploy e rest ?sm1 w2") auto
        from Cons.prems(1) have "w' = w3"
          unfolding cad_step [OF True c' d' rec] by (rule case_result_world)
        with Cons.IH [OF rec rest] r2 show ?thesis by simp
      qed
    qed
  qed
qed


lemma claim_and_deploy_append:
  "claim_and_deploy e (xs @ ys) sm w =
     (case claim_and_deploy e xs sm w of
        (Inl err, w1) \<Rightarrow> (Inl err, w1)
      | (Inr (xs', sm1), w1) \<Rightarrow>
          (case claim_and_deploy e ys sm1 w1 of
             (Inl err, w2) \<Rightarrow> (Inl err, w2)
           | (Inr (ys', sm2), w2) \<Rightarrow> (Inr (xs' @ ys', sm2), w2)))"
  by (induction xs arbitrary: sm w) (auto simp: Let_def split: prod.splits sum.splits)

lemma claim_and_deploy_calls:
  "claim_and_deploy e nodes sm w = (r, w') \<Longrightarrow>
   filter is_power_on (calls w') = filter is_power_on (calls w)"
proof (induction nodes arbitrary: sm w r w')
  case Nil
  then show ?case by simp
next
  case (Cons n rest)
  show ?case
  proof (cases "status n = ALLOCATED")
    case False
    obtain r3 w3 where rec: "claim_and_deploy e rest sm w = (r3, w3)"
      by (cases "claim_and_deploy e rest sm w") auto
    from Cons.prems(1) have "w' = w3"
      unfolding cad_skip [OF False rec] by (rule case_result_world)
    with Cons.IH [OF rec] show ?thesis by simp
  next
    case True
    obtain rc w1 where c: "claim_static_ip_addresses e w n = (rc, w1)"
      by (cases "claim_static_ip_addresses e w n") auto
    note k = claim_static_keeps [OF c]
    show ?thesis
    proof (cases rc)
      case (Inl err)
      with c have c': "claim_static_ip_addresses e w n = (Inl err, w1)" by simp
      from Cons.prems(1) have "w' = w1"
        unfolding cad_claim_fails [OF True c'] by simp
      with k show ?thesis by simp
    next
      case (Inr claims)
      with c have c': "claim_static_ip_addresses e w n = (Inr claims, w1)" by simp
      obtain rd w2 n' where d: "start_deployment e w1 n = (rd, w2, n')"
        by (cases "start_deployment e w1 n") auto
      from start_deployment_calls [OF d] k
      have r2: "filter is_power_on (calls w2) = filter is_power_on (calls w)" by simp
      show ?thesis
      proof (cases rd)
        case (Inl err)
        with d have d': "start_deployment e w1 n = (Inl err, w2, n')" by simp
        from Cons.prems(1) have "w' = w2"
          unfolding cad_deploy_fails [OF True c' d'] by simp
        with r2 show ?thesis by simp
      next
        case (Inr u)
        with d have d': "start_deployment e w1 n = (Inr u, w2, n')" by simp
        let ?sm1 = "if is_pxe_mac_on_managed_interface n
                    then static_mappings_update sm (nodegroup n) claims else sm"
        obtain r3 w3 where rec: "claim_and_deploy e rest ?sm1 w2 = (r3, w3)"
          by (cases "claim_and_deploy e rest ?sm1 w2") auto
        from Cons.prems(1) have "w' = w3"
          unfolding cad_step [OF True c' d' rec] by (rule case_result_world)
        with Cons.IH [OF rec] r2 show ?thesis by simp
      qed
    qed
  qed
qed

lemma sync_and_power_on_tables:
  "sync_and_power_on e nodes sm w = (r, w') \<Longrightarrow>
   node_table w' = node_table w \<and> staticipaddress_table w' = staticipaddress_table w"
  by (auto simp: sync_and_power_on_def Let_def split: if_splits sum.splits)

lemma get_nodes_subset: "set (get_nodes w usr perm ids) \<subseteq> set (node_table w)"
  by (cases usr; cases perm; cases ids)
     (auto simp: get_nodes_def filter_by_ids_def filter_visible_nodes_def)

lemma start_nodes_rows:
  assumes "start_nodes e w ids usr ud = (r, w')"
      and "\<forall>row \<in> set (node_table w). system_id row = sid \<longrightarrow> status row \<noteq> ALLOCATED"
  shows "filter (\<lambda>row. system_id row = sid) (node_table w') =
         filter (\<lambda>row. system_id row = sid) (node_table w)"
proof -
  let ?nodes = "get_nodes w usr EDIT ids"
  let ?w0 = "w\<lparr>calls := calls w @ [BulkSetUserData (map system_id ?nodes) ud]\<rparr>"
  obtain rc w1 where c: "claim_and_deploy e ?nodes [] ?w0 = (rc, w1)"
    by (cases "claim_and_deploy e ?nodes [] ?w0") auto
  from assms(2) get_nodes_subset [of w usr EDIT ids]
  have "\<forall>n \<in> set ?nodes. status n = ALLOCATED \<longrightarrow> system_id n \<noteq> sid" by blast
  from claim_and_deploy_rows [OF c this]
  have r1: "filter (\<lambda>row. system_id row = sid) (node_table w1) =
            filter (\<lambda>row. system_id row = sid) (node_table w)" by simp
  show ?thesis
  proof (cases rc)
    case (Inl err)
    with assms(1) c have "w' = w1" by (simp add: start_nodes_def Let_def)
    with r1 show ?thesis by simp
  next
    case (Inr p)
    obtain nodes' sm where p: "p = (nodes', sm)" by (cases p) auto
    with assms(1) c Inr have "sync_and_power_on e nodes' sm w1 = (r, w')"
      by (simp add: start_nodes_def Let_def)
    from sync_and_power_on_tables [OF this] r1 show ?thesis by simp
  qed
qed

lemma clean_status_ok:
  "requested = current \<or> requested \<in> set (transitions_from e (Some current)) \<Longrightarrow>
   clean_status e (Some current) requested = Inr ()"
  by (auto simp: clean_status_def)

lemma rows_after_write:
  assumes "save e w0 n = (Inr u, w1)"
  shows "\<forall>row \<in> set (node_table w1). system_id row = system_id n \<longrightarrow> row = n"
    and "get_db_state w1 n = Some n"
proof -
  from save_ok [OF assms] have w1: "w1 = db_write w0 n" by simp
  from db_write_rows_same [of n w0] w1
  show "\<forall>row \<in> set (node_table w1). system_id row = system_id n \<longrightarrow> row = n" by auto
  from w1 show "get_db_state w1 n = Some n" by (simp add: get_db_state_db_write)
qed

lemma db_status_after_start_nodes:
  assumes s: "save e w0 n = (Inr u, w1)"
      and sn: "start_nodes e w1 ids usr ud = (r, w2)"
      and st: "status n \<noteq> ALLOCATED"
      and id: "system_id x = system_id n"
  shows "get_db_state w2 x = Some n"
proof -
  from rows_after_write(1) [OF s] st
  have "\<forall>row \<in> set (node_table w1). system_id row = system_id n \<longrightarrow> status row \<noteq> ALLOCATED"
    by auto
  from start_nodes_rows [OF sn this]
  have "get_db_state w2 n = get_db_state w1 n" by (simp add: get_db_state_rows)
  with rows_after_write(2) [OF s] id show ?thesis by (simp add: get_db_state_def)
qed

lemma start_commissioning_rollback:
  assumes s1: "save e (w\<lparr>calls := calls w @ [ClearResults (system_id self)]\<rparr>)
                  (self\<lparr>status := COMMISSIONING\<rparr>) = (Inr (), w1)"
      and sn: "start_nodes e w1 (Some [system_id self]) usr
                  (Some (commissioning_user_data e self)) = (Inl ex, w2)"
      and ok: "status self = COMMISSIONING
               \<or> status self \<in> set (transitions_from e (Some COMMISSIONING))"
  shows "start_commissioning e w self usr = (Inl ex, db_write w2 self, self)"
proof -
  have "get_db_state w2 self = Some (self\<lparr>status := COMMISSIONING\<rparr>)"
    by (rule db_status_after_start_nodes [OF s1 _ _ _, where x=self]) (use sn in simp_all)
  then have "get_db_status w2 self = Some COMMISSIONING" by (simp add: get_db_status_def)
  with ok have "save e w2 self = (Inr (), db_write w2 self)"
    by (simp add: save_def clean_def clean_status_ok)
  with s1 sn show ?thesis
    by (simp add: start_commissioning_def Let_def)
qed

lemma start_disk_erasing_failure:
  assumes s1: "save e w (self\<lparr>status := DISK_ERASING\<rparr>) = (Inr (), w1)"
      and sn: "start_nodes e w1 (Some [system_id self]) usr
                  (Some (disk_erasing_user_data e self)) = (Inl ex, w2)"
      and ok: "FAILED_DISK_ERASING \<in> set (transitions_from e (Some DISK_ERASING))"
  shows "start_disk_erasing e w self usr =
           (Inl ex, db_write w2 (self\<lparr>status := FAILED_DISK_ERASING\<rparr>),
            self\<lparr>status := FAILED_DISK_ERASING\<rparr>)"
proof -
  have "get_db_state w2 (self\<lparr>status := FAILED_DISK_ERASING\<rparr>)
          = Some (self\<lparr>status := DISK_ERASING\<rparr>)"
    by (rule db_status_after_start_nodes [OF s1 _ _ _]) (use sn in simp_all)
  then have "get_db_status w2 (self\<lparr>status := FAILED_DISK_ERASING\<rparr>) = Some DISK_ERASING"
    by (simp add: get_db_status_def)
  with ok have "save e w2 (self\<lparr>status := FAILED_DISK_ERASING\<rparr>)
                  = (Inr (), db_write w2 (self\<lparr>status := FAILED_DISK_ERASING\<rparr>))"
    by (simp add: save_def clean_def clean_status_ok)
  with s1 sn show ?thesis
    by (simp add: start_disk_erasing_def Let_def)
qed


section \<open>A batch of one node\<close>

lemma filter_distinct_ids:
  "distinct (map system_id xs) \<Longrightarrow>
   filter (\<lambda>row. system_id row = sid) xs =
     (case find (\<lambda>row. system_id row = sid) xs of None \<Rightarrow> [] | Some r \<Rightarrow> [r])"
proof (induction xs)
  case Nil
  then show ?case by simp
next
  case (Cons x xs)
  show ?case
  proof (cases "system_id x = sid")
    case True
    from Cons.prems have "system_id x \<notin> system_id ` set xs" by simp
    then have "\<forall>y \<in> set xs. system_id y \<noteq> system_id x" by (metis imageI)
    with True have "\<forall>y \<in> set xs. system_id y \<noteq> sid" by simp
    then have "filter (\<lambda>row. system_id row = sid) xs = []" by (simp add: filter_empty_conv)
    with True show ?thesis by simp
  next
    case False
    with Cons show ?thesis by simp
  qed
qed

lemma map_ids_replace:
  "map system_id (map (\<lambda>row. if system_id row = system_id n then n else row) xs)
     = map system_id xs"
  by (induction xs) auto

lemma db_write_distinct:
  assumes "distinct (map system_id (node_table w))"
  shows "distinct (map system_id (node_table (db_write w n)))"
proof (cases "get_db_state w n = None")
  case True
  then have "system_id n \<notin> set (map system_id (node_table w))"
    by (auto simp: get_db_state_def find_None_iff)
  with assms True show ?thesis by (simp add: db_write_def)
next
  case False
  then have "node_table (db_write w n) =
               map (\<lambda>row. if system_id row = system_id n then n else row) (node_table w)"
    by (simp add: db_write_def)
  with assms show ?thesis by (simp only: map_ids_replace)
qed

lemma rows_after_db_write_distinct:
  "distinct (map system_id (node_table w)) \<Longrightarrow>
   filter (\<lambda>row. system_id row = system_id n) (node_table (db_write w n)) = [n]"
  using filter_distinct_ids [OF db_write_distinct, where w1=w and n1=n and sid="system_id n"]
        get_db_state_db_write [of w n]
  by (simp add: get_db_state_def)

lemma get_nodes_single:
  assumes "filter (\<lambda>row. system_id row = system_id n) (node_table w) = [n]"
      and "is_superuser u \<or> owner n = Some u"
  shows "get_nodes w (Some u) EDIT (Some [system_id n]) = [n]"
proof (cases "is_superuser u")
  case True
  with assms(1) show ?thesis
    by (simp add: get_nodes_def filter_by_ids_def filter_visible_nodes_def)
next
  case False
  with assms(2) have o: "owner n = Some u" by simp
  have "filter (\<lambda>x. system_id x = system_id n) (filter (\<lambda>x. owner x = Some u) (node_table w))
        = filter (\<lambda>x. owner x = Some u) (filter (\<lambda>x. system_id x = system_id n) (node_table w))"
    by (simp add: conj_commute)
  with assms(1) o False show ?thesis
    by (simp add: get_nodes_def filter_by_ids_def filter_visible_nodes_def)
qed

lemma start_nodes_single:
  assumes "get_nodes w usr EDIT ids = [n]"
      and "status n \<noteq> ALLOCATED"
      and "update_host_maps e [] = []"
      and "can_be_started (get_effective_power_info e n)"
  shows "start_nodes e w ids usr ud =
     ((if \<exists>d \<in> set (power_on_nodes e [power_request_of n (get_effective_power_info e n)]).
             dispatch_failed d
       then Inl (MultipleFailures
                  (map dispatch_failure
                     (filter dispatch_failed
                        (power_on_nodes e [power_request_of n (get_effective_power_info e n)]))))
       else Inr [n]),
      w\<lparr>calls := calls w @
           [BulkSetUserData [system_id n] ud, UpdateHostMaps [], ChangeDnsZones [nodegroup n],
            PowerOnNodes [power_request_of n (get_effective_power_info e n)]]\<rparr>)"
  using assms
  by (simp add: start_nodes_def sync_and_power_on_def Let_def nodes_start_info_def
                wait_for_power_commands_eq powered_systems_def power_request_of_def)

lemma save_passes:
  "clean e w n = Inr () \<Longrightarrow> save e w n = (Inr (), db_write w n)"
  by (simp add: save_def)

lemma accept_enlistment_power_failure:
  assumes new: "status self = NEW"
      and stored: "get_db_state w self = Some self"
      and ids: "distinct (map system_id (node_table w))"
      and fwd: "COMMISSIONING \<in> set (transitions_from e (Some NEW))"
      and rollback_ok: "NEW \<in> set (transitions_from e (Some COMMISSIONING))"
      and vis: "is_superuser u \<or> owner self = Some u"
      and maps: "update_host_maps e [] = []"
      and can: "can_be_started (get_effective_power_info e (self\<lparr>status := COMMISSIONING\<rparr>))"
      and fail: "\<exists>d \<in> set (power_on_nodes e
                   [power_request_of (self\<lparr>status := COMMISSIONING\<rparr>)
                      (get_effective_power_info e (self\<lparr>status := COMMISSIONING\<rparr>))]).
                  dispatch_failed d"
  shows "fst (accept_enlistment e w self (Some u)) =
           Inl (MultipleFailures
                 (map dispatch_failure
                    (filter dispatch_failed
                       (power_on_nodes e
                          [power_request_of (self\<lparr>status := COMMISSIONING\<rparr>)
                             (get_effective_power_info e (self\<lparr>status := COMMISSIONING\<rparr>))]))))"
    and "snd (snd (accept_enlistment e w self (Some u))) = self"
    and "get_db_state (fst (snd (accept_enlistment e w self (Some u)))) self = Some self"
    and "PowerOnNodes [power_request_of (self\<lparr>status := COMMISSIONING\<rparr>)
                         (get_effective_power_info e (self\<lparr>status := COMMISSIONING\<rparr>))]
           \<in> set (calls (fst (snd (accept_enlistment e w self (Some u)))))"
proof -
  let ?n1 = "self\<lparr>status := COMMISSIONING\<rparr>"
  let ?w0 = "w\<lparr>calls := calls w @ [ClearResults (system_id self)]\<rparr>"
  let ?w1 = "db_write ?w0 ?n1"
  let ?req = "power_request_of ?n1 (get_effective_power_info e ?n1)"
  let ?ds = "power_on_nodes e [?req]"
  let ?ex = "MultipleFailures (map dispatch_failure (filter dispatch_failed ?ds))"
  let ?w2 = "?w1\<lparr>calls := calls ?w1 @
               [BulkSetUserData [system_id ?n1] (Some (commissioning_user_data e self)),
                UpdateHostMaps [], ChangeDnsZones [nodegroup ?n1], PowerOnNodes [?req]]\<rparr>"
  from stored new have "get_db_status ?w0 ?n1 = Some NEW"
    by (simp add: get_db_status_def get_db_state_def)
  with fwd have "clean e ?w0 ?n1 = Inr ()"
    by (simp add: clean_def clean_status_ok)
  then have s1: "save e ?w0 ?n1 = (Inr (), ?w1)" by (rule save_passes)
  from ids have "distinct (map system_id (node_table ?w0))" by simp
  from rows_after_db_write_distinct [OF this, of ?n1]
  have "filter (\<lambda>row. system_id row = system_id ?n1) (node_table ?w1) = [?n1]" .
  from get_nodes_single [OF this] vis
  have g: "get_nodes ?w1 (Some u) EDIT (Some [system_id ?n1]) = [?n1]" by simp
  have sn: "start_nodes e ?w1 (Some [system_id self]) (Some u)
              (Some (commissioning_user_data e self)) = (Inl ?ex, ?w2)"
    using start_nodes_single [OF g _ maps can, of "Some (commissioning_user_data e self)"] fail
    by simp
  from rollback_ok new have "status self = COMMISSIONING
               \<or> status self \<in> set (transitions_from e (Some COMMISSIONING))" by simp
  from start_commissioning_rollback [OF s1 sn this] new
  have r: "accept_enlistment e w self (Some u) = (Inl ?ex, db_write ?w2 self, self)"
    by (simp add: accept_enlistment_def)
  from r show "fst (accept_enlistment e w self (Some u)) = Inl ?ex" by simp
  from r show "snd (snd (accept_enlistment e w self (Some u))) = self" by simp
  from r show "get_db_state (fst (snd (accept_enlistment e w self (Some u)))) self = Some self"
    by (simp add: get_db_state_db_write)
  from r show "PowerOnNodes [?req] \<in> set (calls (fst (snd (accept_enlistment e w self (Some u)))))"
    by (simp add: db_write_other_fields)
qed


section \<open>Properties of a failed power dispatch\<close>

lemma single_dispatch_fails:
  assumes ids: "distinct (map system_id (node_table w0))"
      and cl: "clean e w0 n = Inr ()"
      and na: "status n \<noteq> ALLOCATED"
      and vis: "is_superuser u \<or> owner n = Some u"
      and maps: "update_host_maps e [] = []"
      and can: "can_be_started (get_effective_power_info e n)"
      and fail: "\<exists>d \<in> set (power_on_nodes e [power_request_of n (get_effective_power_info e n)]).
                  dispatch_failed d"
  shows "save e w0 n = (Inr (), db_write w0 n)"
    and "start_nodes e (db_write w0 n) (Some [system_id n]) (Some u) ud =
           (Inl (MultipleFailures
                  (map dispatch_failure
                     (filter dispatch_failed
                        (power_on_nodes e [power_request_of n (get_effective_power_info e n)])))),
            (db_write w0 n)\<lparr>calls := calls (db_write w0 n) @
               [BulkSetUserData [system_id n] ud, UpdateHostMaps [], ChangeDnsZones [nodegroup n],
                PowerOnNodes [power_request_of n (get_effective_power_info e n)]]\<rparr>)"
proof -
  from cl show "save e w0 n = (Inr (), db_write w0 n)" by (rule save_passes)
  from rows_after_db_write_distinct [OF ids, of n]
  have "filter (\<lambda>row. system_id row = system_id n) (node_table (db_write w0 n)) = [n]" .
  from get_nodes_single [OF this vis]
  have g: "get_nodes (db_write w0 n) (Some u) EDIT (Some [system_id n]) = [n]" .
  from start_nodes_single [OF g na maps can, of ud] fail
  show "start_nodes e (db_write w0 n) (Some [system_id n]) (Some u) ud =
           (Inl (MultipleFailures
                  (map dispatch_failure
                     (filter dispatch_failed
                        (power_on_nodes e [power_request_of n (get_effective_power_info e n)])))),
            (db_write w0 n)\<lparr>calls := calls (db_write w0 n) @
               [BulkSetUserData [system_id n] ud, UpdateHostMaps [], ChangeDnsZones [nodegroup n],
                PowerOnNodes [power_request_of n (get_effective_power_info e n)]]\<rparr>)"
    by simp
qed

lemma sample_node_fields:
  "system_id (sample_node sid st pt m) = sid"
  "status (sample_node sid st pt m) = st"
  "owner (sample_node sid st pt m) = None"
  "nodegroup (sample_node sid st pt m) = ''c1''"
  "(sample_node sid st pt m)\<lparr>status := st'\<rparr> = sample_node sid st' pt m"
  by (simp_all add: sample_node_def)

lemma sample_world_fields:
  "node_table (sample_world rows) = rows"
  "staticipaddress_table (sample_world rows) = []"
  "calls (sample_world rows) = []"
  by (simp_all add: sample_world_def)

lemma get_db_status_calls:
  "get_db_status (w\<lparr>calls := cs\<rparr>) n = get_db_status w n"
  by (simp add: get_db_status_def get_db_state_def)

lemma sample_dispatch_fails:
  "\<exists>d \<in> set (power_on_nodes sample_env [req]). dispatch_failed d"
  "map dispatch_failure (filter dispatch_failed (power_on_nodes sample_env [req])) = [''no power'']"
  by (simp_all add: sample_power dispatch_failed_def dispatch_failure_def
                    power_commands_timeout_def)

section \<open>Properties of accepting an enlistment\<close>

lemma sample_enlistment:
  "status (sample_node sid NEW ''ipmi'' m) = NEW"
  "get_db_state (sample_world [sample_node sid NEW ''ipmi'' m]) (sample_node sid NEW ''ipmi'' m)
     = Some (sample_node sid NEW ''ipmi'' m)"
  "distinct (map system_id (node_table (sample_world [sample_node sid NEW ''ipmi'' m])))"
  "COMMISSIONING \<in> set (transitions_from sample_env (Some NEW))"
  "NEW \<in> set (transitions_from sample_env (Some COMMISSIONING))"
  "is_superuser sample_admin \<or> owner (sample_node sid NEW ''ipmi'' m) = Some sample_admin"
  "update_host_maps sample_env [] = []"
  "can_be_started (get_effective_power_info sample_env
                     ((sample_node sid NEW ''ipmi'' m)\<lparr>status := COMMISSIONING\<rparr>))"
  "\<exists>d \<in> set (power_on_nodes sample_env [req]). dispatch_failed d"
  by (simp_all add: sample_node_fields sample_world_fields get_db_state_def
                    sample_transitions_simps sample_admin_def sample_power
                    dispatch_failed_def)

text \<open>
  C4. \<open>accept_enlistment\<close> on a stored node of status \<open>NEW\<close>, when the table of
  transitions allows \<open>NEW\<close> to \<open>COMMISSIONING\<close> and back, the user may edit the node,
  the node can be started and its power-on dispatch fails: the power-on request made for
  the node in status \<open>COMMISSIONING\<close> has been issued, the caller receives the failures
  of the dispatch in one \<open>MultipleFailures\<close>, and the node is as before the call, in
  memory and in the node table, so its final status is \<open>NEW\<close> and not
  \<open>FAILED_COMMISSIONING\<close>.
\<close>

theorem accept_enlistment_power_failure_restores_new:
  assumes "status self = NEW"
      and "get_db_state w self = Some self"
      and "distinct (map system_id (node_table w))"
      and "COMMISSIONING \<in> set (transitions_from e (Some NEW))"
      and "NEW \<in> set (transitions_from e (Some COMMISSIONING))"
      and "is_superuser u \<or> owner self = Some u"
      and "update_host_maps e [] = []"
      and "can_be_started (get_effective_power_info e (self\<lparr>status := COMMISSIONING\<rparr>))"
      and "\<exists>d \<in> set (power_on_nodes e
                   [power_request_of (self\<lparr>status := COMMISSIONING\<rparr>)
                      (get_effective_power_info e (self\<lparr>status := COMMISSIONING\<rparr>))]).
             dispatch_failed d"
  shows "fst (accept_enlistment e w self (Some u)) =
           Inl (MultipleFailures
                 (map dispatch_failure
                    (filter dispatch_failed
                       (power_on_nodes e
                          [power_request_of (self\<lparr>status := COMMISSIONING\<rparr>)
                             (get_effective_power_info e (self\<lparr>status := COMMISSIONING\<rparr>))]))))
       \<and> snd (snd (accept_enlistment e w self (Some u))) = self
       \<and> get_db_state (fst (snd (accept_enlistment e w self (Some u)))) self = Some self
       \<and> get_db_status (fst (snd (accept_enlistment e w self (Some u)))) self = Some NEW
       \<and> PowerOnNodes [power_request_of (self\<lparr>status := COMMISSIONING\<rparr>)
                         (get_effective_power_info e (self\<lparr>status := COMMISSIONING\<rparr>))]
           \<in> set (calls (fst (snd (accept_enlistment e w self (Some u)))))"
proof -
  note r = accept_enlistment_power_failure [OF assms]
  from r(3) assms(1)
  have "get_db_status (fst (snd (accept_enlistment e w self (Some u)))) self = Some NEW"
    by (simp add: get_db_status_def)
  with r show ?thesis by blast
qed

theorem accept_enlistment_power_failure_restores_new_witness:
  "fst (accept_enlistment sample_env (sample_world [sample_node ''n7'' NEW ''ipmi'' ''cc''])
          (sample_node ''n7'' NEW ''ipmi'' ''cc'') (Some sample_admin))
     = Inl (MultipleFailures [''no power''])
   \<and> snd (snd (accept_enlistment sample_env (sample_world [sample_node ''n7'' NEW ''ipmi'' ''cc''])
          (sample_node ''n7'' NEW ''ipmi'' ''cc'') (Some sample_admin)))
     = sample_node ''n7'' NEW ''ipmi'' ''cc''
   \<and> get_db_status
        (fst (snd (accept_enlistment sample_env
                     (sample_world [sample_node ''n7'' NEW ''ipmi'' ''cc''])
                     (sample_node ''n7'' NEW ''ipmi'' ''cc'') (Some sample_admin))))
        (sample_node ''n7'' NEW ''ipmi'' ''cc'') = Some NEW"
proof -
  from accept_enlistment_power_failure_restores_new
         [where e=sample_env and w="sample_world [sample_node ''n7'' NEW ''ipmi'' ''cc'']"
            and self="sample_node ''n7'' NEW ''ipmi'' ''cc''" and u=sample_admin,
          OF sample_enlistment]
  show ?thesis
    by (simp add: sample_dispatch_fails(2))
qed

theorem accept_enlistment_not_failed_commissioning:
  "fst (accept_enlistment sample_env (sample_world [sample_node ''n1'' NEW ''ipmi'' ''aa''])
          (sample_node ''n1'' NEW ''ipmi'' ''aa'') (Some sample_admin))
     = Inl (MultipleFailures [''no power''])
   \<and> status (snd (snd (accept_enlistment sample_env
                (sample_world [sample_node ''n1'' NEW ''ipmi'' ''aa''])
                (sample_node ''n1'' NEW ''ipmi'' ''aa'') (Some sample_admin)))) = NEW
   \<and> status (snd (snd (accept_enlistment sample_env
                (sample_world [sample_node ''n1'' NEW ''ipmi'' ''aa''])
                (sample_node ''n1'' NEW ''ipmi'' ''aa'') (Some sample_admin))))
       \<noteq> FAILED_COMMISSIONING
   \<and> get_db_state
        (fst (snd (accept_enlistment sample_env
                     (sample_world [sample_node ''n1'' NEW ''ipmi'' ''aa''])
                     (sample_node ''n1'' NEW ''ipmi'' ''aa'') (Some sample_admin))))
        (sample_node ''n1'' NEW ''ipmi'' ''aa'') = Some (sample_node ''n1'' NEW ''ipmi'' ''aa'')"
proof -
  note r = accept_enlistment_power_failure
         [where e=sample_env and w="sample_world [sample_node ''n1'' NEW ''ipmi'' ''aa'']"
            and self="sample_node ''n1'' NEW ''ipmi'' ''aa''" and u=sample_admin,
          OF sample_enlistment]
  from r(1) r(2) r(3) show ?thesis
    by (simp add: sample_dispatch_fails(2) sample_node_fields)
qed

section \<open>Properties of the address claims of a power-on batch\<close>

text \<open>
  C3. \<open>start_nodes\<close> on a batch in which the allocator is out of addresses for an
  allocated node \<open>n\<close>: the exhaustion error is raised at once and ends the whole batch.
  The world is left as the loop has made it for the nodes before \<open>n\<close>; no power-on is
  dispatched for any node of the batch, also not for the nodes before \<open>n\<close> whose claim
  went through; and for \<open>n\<close> and the nodes after it nothing is recorded: their rows
  in the node table are as before the call, an allocated node after \<open>n\<close> stays
  allocated.
\<close>

theorem start_nodes_exhaustion_ends_batch:
  assumes "get_nodes w usr EDIT ids = pre @ n # post"
      and "claim_and_deploy e pre []
             (w\<lparr>calls := calls w @ [BulkSetUserData (map system_id (pre @ n # post)) ud]\<rparr>)
           = (Inr (pre', sm), w1)"
      and "status n = ALLOCATED"
      and "get_pxe_mac n = Some mac"
      and "claim_static_ips e (staticipaddress_table w1) mac = Exhaustion"
  shows "start_nodes e w ids usr ud = (Inl StaticIPAddressExhaustion, w1)
       \<and> filter is_power_on (calls w1) = filter is_power_on (calls w)
       \<and> (\<forall>x \<in> set (n # post). system_id x \<notin> system_id ` set pre \<longrightarrow>
             get_db_state w1 x = get_db_state w x)"
proof -
  let ?wa = "w\<lparr>calls := calls w @ [BulkSetUserData (map system_id (pre @ n # post)) ud]\<rparr>"
  from assms(4) assms(5)
  have "claim_static_ip_addresses e w1 n = (Inl StaticIPAddressExhaustion, w1)"
    by (simp add: claim_static_ip_addresses_def)
  from cad_claim_fails [OF assms(3) this]
  have "claim_and_deploy e (n # post) sm w1 = (Inl StaticIPAddressExhaustion, w1)" .
  with assms(2)
  have "claim_and_deploy e (pre @ n # post) [] ?wa = (Inl StaticIPAddressExhaustion, w1)"
    by (simp add: claim_and_deploy_append)
  with assms(1) have a: "start_nodes e w ids usr ud = (Inl StaticIPAddressExhaustion, w1)"
    by (simp add: start_nodes_def Let_def)
  from claim_and_deploy_calls [OF assms(2)]
  have b: "filter is_power_on (calls w1) = filter is_power_on (calls w)" by simp
  have c: "\<forall>x \<in> set (n # post). system_id x \<notin> system_id ` set pre \<longrightarrow>
             get_db_state w1 x = get_db_state w x"
  proof (intro ballI impI)
    fix x :: node
    assume "x \<in> set (n # post)"
    assume "system_id x \<notin> system_id ` set pre"
    then have "\<forall>p \<in> set pre. status p = ALLOCATED \<longrightarrow> system_id p \<noteq> system_id x"
      by (metis imageI)
    from claim_and_deploy_rows [OF assms(2) this]
    show "get_db_state w1 x = get_db_state w x" by (simp add: get_db_state_rows)
  qed
  from a b c show ?thesis by blast
qed

lemma sample_batch:
  "get_nodes (sample_world [sample_node s1 st1 pt1 m1, sample_node s2 st2 pt2 m2,
                            sample_node s3 st3 pt3 m3])
             (Some sample_admin) EDIT (Some [s1, s2, s3])
     = [sample_node s1 st1 pt1 m1, sample_node s2 st2 pt2 m2, sample_node s3 st3 pt3 m3]"
  "get_nodes (sample_world [sample_node s1 st1 pt1 m1, sample_node s2 st2 pt2 m2])
             (Some sample_admin) EDIT (Some [s1, s2])
     = [sample_node s1 st1 pt1 m1, sample_node s2 st2 pt2 m2]"
  by (simp_all add: get_nodes_def filter_by_ids_def filter_visible_nodes_def
                    sample_world_fields sample_admin_def sample_node_fields)

lemma sample_managed:
  "is_pxe_mac_on_managed_interface (sample_node sid st pt m)"
  by (simp add: is_pxe_mac_on_managed_interface_def sample_claims sample_mac_def)

theorem start_nodes_exhaustion_ends_batch_witness:
  "fst (start_nodes sample_env
          (sample_world [sample_node ''nb'' ALLOCATED ''ipmi'' ''bb'',
                         sample_node ''na'' ALLOCATED ''ipmi'' ''aa'',
                         sample_node ''nc'' ALLOCATED ''ipmi'' ''cc''])
          (Some [''nb'', ''na'', ''nc'']) (Some sample_admin) None)
     = Inl StaticIPAddressExhaustion
   \<and> filter is_power_on
        (calls (snd (start_nodes sample_env
          (sample_world [sample_node ''nb'' ALLOCATED ''ipmi'' ''bb'',
                         sample_node ''na'' ALLOCATED ''ipmi'' ''aa'',
                         sample_node ''nc'' ALLOCATED ''ipmi'' ''cc''])
          (Some [''nb'', ''na'', ''nc'']) (Some sample_admin) None))) = []
   \<and> get_db_status
        (snd (start_nodes sample_env
          (sample_world [sample_node ''nb'' ALLOCATED ''ipmi'' ''bb'',
                         sample_node ''na'' ALLOCATED ''ipmi'' ''aa'',
                         sample_node ''nc'' ALLOCATED ''ipmi'' ''cc''])
          (Some [''nb'', ''na'', ''nc'']) (Some sample_admin) None))
        (sample_node ''nc'' ALLOCATED ''ipmi'' ''cc'') = Some ALLOCATED"
proof -
  let ?nb = "sample_node ''nb'' ALLOCATED ''ipmi'' ''bb''"
  let ?na = "sample_node ''na'' ALLOCATED ''ipmi'' ''aa''"
  let ?nc = "sample_node ''nc'' ALLOCATED ''ipmi'' ''cc''"
  let ?nd = "sample_node ''nb'' DEPLOYING ''ipmi'' ''bb''"
  let ?w = "sample_world [?nb, ?na, ?nc]"
  let ?wa = "?w\<lparr>calls := calls ?w @ [BulkSetUserData (map system_id ([?nb] @ ?na # [?nc])) None]\<rparr>"
  let ?wb = "?wa\<lparr>staticipaddress_table := staticipaddress_table ?wa @ [(''10.0.0.5'', ''bb'')]\<rparr>"
  let ?wc = "start_transition_monitor (db_write ?wb ?nd) ?nd get_deployment_time"
  let ?sm = "static_mappings_update [] (nodegroup ?nb) [(''10.0.0.5'', ''bb'')]"
  have g: "get_nodes ?w (Some sample_admin) EDIT (Some [''nb'', ''na'', ''nc''])
             = [?nb] @ ?na # [?nc]"
    by (simp add: sample_batch)
  have cl: "claim_static_ip_addresses sample_env ?wa ?nb = (Inr [(''10.0.0.5'', ''bb'')], ?wb)"
    by (simp add: claim_static_ip_addresses_def sample_claims sample_node_power Let_def)
  have "get_db_status ?wb ?nd = Some ALLOCATED"
    by (simp add: get_db_status_def get_db_state_def sample_world_fields sample_node_fields)
  then have "save sample_env ?wb ?nd = (Inr (), db_write ?wb ?nd)"
    by (simp add: save_def clean_def clean_status_def sample_node_fields sample_transitions_simps)
  then have sd: "start_deployment sample_env ?wb ?nb = (Inr (), ?wc, ?nd)"
    by (simp add: start_deployment_def Let_def sample_node_fields)
  have st: "status ?nb = ALLOCATED" "status ?na = ALLOCATED"
    by (simp_all add: sample_node_fields)
  have e: "claim_and_deploy sample_env [] ?sm ?wc = (Inr ([], ?sm), ?wc)" by simp
  from cad_step [OF st(1) cl sd, where rest="[]" and sm="[]"] e
  have cd: "claim_and_deploy sample_env [?nb] [] ?wa = (Inr ([?nd], ?sm), ?wc)"
    by (simp add: sample_managed)
  have ex: "claim_static_ips sample_env (staticipaddress_table ?wc) (sample_mac ''aa'') = Exhaustion"
    by (rule sample_claims(2))
  have other: "system_id ?nc \<notin> system_id ` set [?nb]"
    by (simp add: sample_node_fields)
  have before: "get_db_state ?w ?nc = Some ?nc" "filter is_power_on (calls ?w) = []"
    by (simp_all add: get_db_state_def sample_world_fields sample_node_fields)
  from start_nodes_exhaustion_ends_batch
         [where e=sample_env and w="?w" and usr="Some sample_admin"
            and ids="Some [''nb'', ''na'', ''nc'']" and pre="[?nb]" and n="?na" and post="[?nc]"
            and ud=None and pre'="[?nd]" and sm="?sm" and ?w1.0="?wc" and mac="sample_mac ''aa''",
          OF g cd st(2) sample_claims(1) ex]
       other before
  show ?thesis
    by (simp add: get_db_status_def sample_node_fields)
qed

theorem start_nodes_exhaustion_stops_other_nodes:
  "start_nodes sample_env
      (sample_world [sample_node ''n1'' ALLOCATED ''ipmi'' ''aa'',
                     sample_node ''n2'' ALLOCATED ''ipmi'' ''bb''])
      (Some [''n1'', ''n2'']) (Some sample_admin) None
     = (Inl StaticIPAddressExhaustion,
        (sample_world [sample_node ''n1'' ALLOCATED ''ipmi'' ''aa'',
                       sample_node ''n2'' ALLOCATED ''ipmi'' ''bb''])
          \<lparr>calls := [BulkSetUserData [''n1'', ''n2''] None]\<rparr>)
   \<and> get_db_status
        ((sample_world [sample_node ''n1'' ALLOCATED ''ipmi'' ''aa'',
                        sample_node ''n2'' ALLOCATED ''ipmi'' ''bb''])
           \<lparr>calls := [BulkSetUserData [''n1'', ''n2''] None]\<rparr>)
        (sample_node ''n2'' ALLOCATED ''ipmi'' ''bb'') = Some ALLOCATED
   \<and> staticipaddress_table
        ((sample_world [sample_node ''n1'' ALLOCATED ''ipmi'' ''aa'',
                        sample_node ''n2'' ALLOCATED ''ipmi'' ''bb''])
           \<lparr>calls := [BulkSetUserData [''n1'', ''n2''] None]\<rparr>) = []
   \<and> fst (claim_static_ip_addresses sample_env
        (sample_world [sample_node ''n1'' ALLOCATED ''ipmi'' ''aa'',
                       sample_node ''n2'' ALLOCATED ''ipmi'' ''bb''])
        (sample_node ''n2'' ALLOCATED ''ipmi'' ''bb'')) = Inr [(''10.0.0.5'', ''bb'')]"
proof -
  let ?n1 = "sample_node ''n1'' ALLOCATED ''ipmi'' ''aa''"
  let ?n2 = "sample_node ''n2'' ALLOCATED ''ipmi'' ''bb''"
  let ?w = "sample_world [?n1, ?n2]"
  let ?wa = "?w\<lparr>calls := [BulkSetUserData [''n1'', ''n2''] None]\<rparr>"
  have cl: "claim_static_ip_addresses sample_env ?wa ?n1 = (Inl StaticIPAddressExhaustion, ?wa)"
    by (simp add: claim_static_ip_addresses_def sample_claims)
  have st: "status ?n1 = ALLOCATED" by (simp add: sample_node_fields)
  from cad_claim_fails [OF st cl, of "[?n2]" "[]"]
  have "claim_and_deploy sample_env [?n1, ?n2] [] ?wa = (Inl StaticIPAddressExhaustion, ?wa)" .
  then have a: "start_nodes sample_env ?w (Some [''n1'', ''n2'']) (Some sample_admin) None
                  = (Inl StaticIPAddressExhaustion, ?wa)"
    by (simp add: start_nodes_def Let_def sample_batch sample_node_fields sample_world_fields)
  have b: "get_db_status ?wa ?n2 = Some ALLOCATED"
    by (simp add: get_db_status_def get_db_state_def sample_world_fields sample_node_fields)
  have c: "staticipaddress_table ?wa = []" by (simp add: sample_world_fields)
  have d: "fst (claim_static_ip_addresses sample_env ?w ?n2) = Inr [(''10.0.0.5'', ''bb'')]"
    by (simp add: claim_static_ip_addresses_def sample_claims sample_node_power Let_def)
  from a b c d show ?thesis by blast
qed


section \<open>Properties of the status after a failed power dispatch\<close>

lemma start_nodes_deploy_failure:
  assumes g: "get_nodes w usr EDIT ids = [n]"
      and st: "status n = ALLOCATED"
      and cd: "claim_and_deploy e [n] []
                 (w\<lparr>calls := calls w @ [BulkSetUserData [system_id n] ud]\<rparr>)
               = (Inr (nodes', sm), w1)"
      and sp: "sync_and_power_on e nodes' sm w1 = (Inl ex, w2)"
  shows "start_nodes e w ids usr ud = (Inl ex, w2)"
    and "get_db_status w2 n = Some DEPLOYING"
proof -
  let ?wa = "w\<lparr>calls := calls w @ [BulkSetUserData [system_id n] ud]\<rparr>"
  let ?nd = "n\<lparr>status := DEPLOYING\<rparr>"
  from g cd sp show "start_nodes e w ids usr ud = (Inl ex, w2)"
    by (simp add: start_nodes_def Let_def)
  obtain rc wc where c: "claim_static_ip_addresses e ?wa n = (rc, wc)"
    by (cases "claim_static_ip_addresses e ?wa n") auto
  obtain rd wd n' where d: "start_deployment e wc n = (rd, wd, n')"
    by (cases "start_deployment e wc n") auto
  from cd st c obtain claims where rc: "rc = Inr claims"
    by (cases rc) auto
  from cd st c rc d have rd: "rd = Inr ()"
    by (cases rd) (auto simp: Let_def)
  from cd st c rc d rd have w1: "w1 = wd"
    by (auto simp: Let_def)
  obtain rs ws where s: "save e wc ?nd = (rs, ws)"
    by (cases "save e wc ?nd") auto
  from d rd s have rs: "rs = Inr ()"
    by (cases rs) (auto simp: start_deployment_def Let_def)
  from d s rs have wd: "wd = start_transition_monitor ws ?nd get_deployment_time"
    by (auto simp: start_deployment_def Let_def)
  from s rs have "save e wc ?nd = (Inr (), ws)" by simp
  from rows_after_write(2) [OF this] have "get_db_state ws ?nd = Some ?nd" .
  with wd have "get_db_state wd n = Some ?nd"
    by (simp add: get_db_state_def start_transition_monitor_def)
  with sync_and_power_on_tables [OF sp] w1
  show "get_db_status w2 n = Some DEPLOYING"
    by (simp add: get_db_status_def get_db_state_def)
qed

lemma sample_claim_and_deploy:
  "fst (claim_and_deploy sample_env [sample_node sid ALLOCATED ''ipmi'' ''bb''] []
          ((sample_world [sample_node sid ALLOCATED ''ipmi'' ''bb''])\<lparr>calls := cs\<rparr>))
     = Inr ([sample_node sid DEPLOYING ''ipmi'' ''bb''],
            static_mappings_update [] ''c1'' [(''10.0.0.5'', ''bb'')])"
proof -
  let ?n = "sample_node sid ALLOCATED ''ipmi'' ''bb''"
  let ?nd = "sample_node sid DEPLOYING ''ipmi'' ''bb''"
  let ?wa = "(sample_world [?n])\<lparr>calls := cs\<rparr>"
  let ?wb = "?wa\<lparr>staticipaddress_table := staticipaddress_table ?wa @ [(''10.0.0.5'', ''bb'')]\<rparr>"
  let ?wc = "start_transition_monitor (db_write ?wb ?nd) ?nd get_deployment_time"
  let ?sm = "static_mappings_update [] (nodegroup ?n) [(''10.0.0.5'', ''bb'')]"
  have cl: "claim_static_ip_addresses sample_env ?wa ?n = (Inr [(''10.0.0.5'', ''bb'')], ?wb)"
    by (simp add: claim_static_ip_addresses_def sample_claims sample_node_power Let_def)
  have "get_db_status ?wb ?nd = Some ALLOCATED"
    by (simp add: get_db_status_def get_db_state_def sample_world_fields sample_node_fields)
  then have "save sample_env ?wb ?nd = (Inr (), db_write ?wb ?nd)"
    by (simp add: save_def clean_def clean_status_def sample_node_fields sample_transitions_simps)
  then have sd: "start_deployment sample_env ?wb ?n = (Inr (), ?wc, ?nd)"
    by (simp add: start_deployment_def Let_def sample_node_fields)
  have st: "status ?n = ALLOCATED" by (simp add: sample_node_fields)
  have e: "claim_and_deploy sample_env [] ?sm ?wc = (Inr ([], ?sm), ?wc)" by simp
  from cad_step [OF st cl sd, where rest="[]" and sm="[]"] e
  have "claim_and_deploy sample_env [?n] [] ?wa = (Inr ([?nd], ?sm), ?wc)"
    by (simp add: sample_managed)
  then show ?thesis by (simp add: sample_node_fields)
qed

lemma sample_sync_fails:
  "fst (sync_and_power_on sample_env [sample_node sid st ''ipmi'' m] sm w)
     = Inl (MultipleFailures [''no power''])"
  by (simp add: sync_and_power_on_def Let_def nodes_start_info_def wait_for_power_commands_eq
                sample_power dispatch_failed_def dispatch_failure_def power_commands_timeout_def
                power_request_of_def)

lemma pair_with_snd: "fst p = a \<Longrightarrow> p = (a, snd p)"
  by (cases p) simp

text \<open>
  C5. What is left of the interim status when the power dispatch fails depends on the
  operation. For \<open>start_commissioning\<close>: when the power-on batch it calls after it has
  stored the status \<open>COMMISSIONING\<close> raises, the node gets back the status it had before
  the call, that status is stored again, and the same exception is raised to the caller,
  provided the table of transitions allows the step back. For \<open>start_disk_erasing\<close>:
  when its power-on batch raises, the status stored and left on the node is
  \<open>FAILED_DISK_ERASING\<close>, and the same exception is raised, provided the table allows
  that step. For the start of a deployment inside \<open>start_nodes\<close>: when the batch of one
  allocated node has claimed its addresses and stored \<open>DEPLOYING\<close>, and the update of
  the host maps or the power dispatch then fails, the failure is raised and the stored
  status stays \<open>DEPLOYING\<close>; it is neither put back to \<open>ALLOCATED\<close> nor set to a
  failed status.
\<close>

theorem power_dispatch_failure_status:
  "(save e (w\<lparr>calls := calls w @ [ClearResults (system_id self)]\<rparr>)
         (self\<lparr>status := COMMISSIONING\<rparr>) = (Inr (), w1) \<longrightarrow>
    start_nodes e w1 (Some [system_id self]) usr
         (Some (commissioning_user_data e self)) = (Inl ex, w2) \<longrightarrow>
    (status self = COMMISSIONING
       \<or> status self \<in> set (transitions_from e (Some COMMISSIONING))) \<longrightarrow>
      start_commissioning e w self usr = (Inl ex, db_write w2 self, self)
      \<and> get_db_state (db_write w2 self) self = Some self)
   \<and> (save e v (other\<lparr>status := DISK_ERASING\<rparr>) = (Inr (), v1) \<longrightarrow>
       start_nodes e v1 (Some [system_id other]) usr'
         (Some (disk_erasing_user_data e other)) = (Inl ex', v2) \<longrightarrow>
       FAILED_DISK_ERASING \<in> set (transitions_from e (Some DISK_ERASING)) \<longrightarrow>
         start_disk_erasing e v other usr' =
           (Inl ex', db_write v2 (other\<lparr>status := FAILED_DISK_ERASING\<rparr>),
            other\<lparr>status := FAILED_DISK_ERASING\<rparr>)
         \<and> get_db_status (db_write v2 (other\<lparr>status := FAILED_DISK_ERASING\<rparr>)) other
             = Some FAILED_DISK_ERASING)
   \<and> (get_nodes d by_user EDIT ids = [n] \<longrightarrow>
       status n = ALLOCATED \<longrightarrow>
       claim_and_deploy e [n] []
         (d\<lparr>calls := calls d @ [BulkSetUserData [system_id n] ud]\<rparr>)
         = (Inr (nodes', sm), d1) \<longrightarrow>
       sync_and_power_on e nodes' sm d1 = (Inl ex'', d2) \<longrightarrow>
         start_nodes e d ids by_user ud = (Inl ex'', d2)
         \<and> get_db_status d2 n = Some DEPLOYING)"
  (is "?A \<and> ?B \<and> ?C")
proof -
  have a: ?A
    using start_commissioning_rollback [where e=e and w=w and self=self and ?w1.0=w1
                                          and usr=usr and ex=ex and ?w2.0=w2]
          get_db_state_db_write [of w2 self]
    by blast
  have "get_db_state (db_write v2 (other\<lparr>status := FAILED_DISK_ERASING\<rparr>))
          (other\<lparr>status := FAILED_DISK_ERASING\<rparr>) = Some (other\<lparr>status := FAILED_DISK_ERASING\<rparr>)"
    by (rule get_db_state_db_write)
  then have "get_db_status (db_write v2 (other\<lparr>status := FAILED_DISK_ERASING\<rparr>)) other
               = Some FAILED_DISK_ERASING"
    by (simp add: get_db_status_def get_db_state_def)
  then have b: ?B
    using start_disk_erasing_failure [where e=e and w=v and self=other and ?w1.0=v1
                                        and usr=usr' and ex=ex' and ?w2.0=v2]
    by blast
  have c: ?C
    using start_nodes_deploy_failure [where w=d and usr=by_user and ids=ids and n=n and e=e
                                        and ud=ud and nodes'=nodes' and sm=sm and ?w1.0=d1
                                        and ex=ex'' and ?w2.0=d2]
    by blast
  from a b c show ?thesis by blast
qed

theorem power_dispatch_failure_status_witness:
  "fst (start_commissioning sample_env (sample_world [sample_node ''n1'' READY ''ipmi'' ''aa''])
          (sample_node ''n1'' READY ''ipmi'' ''aa'') (Some sample_admin))
     = Inl (MultipleFailures [''no power''])
   \<and> status (snd (snd (start_commissioning sample_env
                (sample_world [sample_node ''n1'' READY ''ipmi'' ''aa''])
                (sample_node ''n1'' READY ''ipmi'' ''aa'') (Some sample_admin)))) = READY
   \<and> get_db_status (fst (snd (start_commissioning sample_env
                (sample_world [sample_node ''n1'' READY ''ipmi'' ''aa''])
                (sample_node ''n1'' READY ''ipmi'' ''aa'') (Some sample_admin))))
        (sample_node ''n1'' READY ''ipmi'' ''aa'') = Some READY
   \<and> fst (start_disk_erasing sample_env (sample_world [sample_node ''n2'' ALLOCATED ''ipmi'' ''bb''])
          (sample_node ''n2'' ALLOCATED ''ipmi'' ''bb'') (Some sample_admin))
     = Inl (MultipleFailures [''no power''])
   \<and> status (snd (snd (start_disk_erasing sample_env
                (sample_world [sample_node ''n2'' ALLOCATED ''ipmi'' ''bb''])
                (sample_node ''n2'' ALLOCATED ''ipmi'' ''bb'') (Some sample_admin))))
     = FAILED_DISK_ERASING
   \<and> get_db_status (fst (snd (start_disk_erasing sample_env
                (sample_world [sample_node ''n2'' ALLOCATED ''ipmi'' ''bb''])
                (sample_node ''n2'' ALLOCATED ''ipmi'' ''bb'') (Some sample_admin))))
        (sample_node ''n2'' ALLOCATED ''ipmi'' ''bb'') = Some FAILED_DISK_ERASING
   \<and> fst (start_nodes sample_env (sample_world [sample_node ''n4'' ALLOCATED ''ipmi'' ''bb''])
          (Some [''n4'']) (Some sample_admin) None)
     = Inl (MultipleFailures [''no power''])
   \<and> get_db_status
        (snd (start_nodes sample_env (sample_world [sample_node ''n4'' ALLOCATED ''ipmi'' ''bb''])
                (Some [''n4'']) (Some sample_admin) None))
        (sample_node ''n4'' ALLOCATED ''ipmi'' ''bb'') = Some DEPLOYING"
proof -
  let ?n = "sample_node ''n1'' READY ''ipmi'' ''aa''"
  let ?nc = "sample_node ''n1'' COMMISSIONING ''ipmi'' ''aa''"
  let ?w = "sample_world [?n]"
  let ?wa = "?w\<lparr>calls := calls ?w @ [ClearResults ''n1'']\<rparr>"
  let ?w1 = "db_write ?wa ?nc"
  let ?w2 = "?w1\<lparr>calls := calls ?w1 @
               [BulkSetUserData [system_id ?nc] (Some (commissioning_user_data sample_env ?n)),
                UpdateHostMaps [], ChangeDnsZones [nodegroup ?nc],
                PowerOnNodes [power_request_of ?nc (get_effective_power_info sample_env ?nc)]]\<rparr>"
  let ?o = "sample_node ''n2'' ALLOCATED ''ipmi'' ''bb''"
  let ?oe = "sample_node ''n2'' DISK_ERASING ''ipmi'' ''bb''"
  let ?v = "sample_world [?o]"
  let ?v1 = "db_write ?v ?oe"
  let ?v2 = "?v1\<lparr>calls := calls ?v1 @
               [BulkSetUserData [system_id ?oe] (Some (disk_erasing_user_data sample_env ?o)),
                UpdateHostMaps [], ChangeDnsZones [nodegroup ?oe],
                PowerOnNodes [power_request_of ?oe (get_effective_power_info sample_env ?oe)]]\<rparr>"
  let ?ex = "MultipleFailures [''no power'']"
  let ?m = "sample_node ''n4'' ALLOCATED ''ipmi'' ''bb''"
  let ?md = "sample_node ''n4'' DEPLOYING ''ipmi'' ''bb''"
  let ?d = "sample_world [?m]"
  let ?da = "?d\<lparr>calls := calls ?d @ [BulkSetUserData [system_id ?m] None]\<rparr>"
  let ?sm = "static_mappings_update [] ''c1'' [(''10.0.0.5'', ''bb'')]"
  let ?d1 = "snd (claim_and_deploy sample_env [?m] [] ?da)"
  let ?d2 = "snd (sync_and_power_on sample_env [?md] ?sm ?d1)"
  note c1 = single_dispatch_fails(1)
             [where e=sample_env and ?w0.0="?wa" and n="?nc" and u=sample_admin]
  note c2 = single_dispatch_fails(2)
             [where e=sample_env and ?w0.0="?wa" and n="?nc" and u=sample_admin
                and ud="Some (commissioning_user_data sample_env ?n)"]
  note e1 = single_dispatch_fails(1)
             [where e=sample_env and ?w0.0="?v" and n="?oe" and u=sample_admin]
  note e2 = single_dispatch_fails(2)
             [where e=sample_env and ?w0.0="?v" and n="?oe" and u=sample_admin
                and ud="Some (disk_erasing_user_data sample_env ?o)"]
  have pc: "distinct (map system_id (node_table ?wa))" "clean sample_env ?wa ?nc = Inr ()"
           "status ?nc \<noteq> ALLOCATED" "is_superuser sample_admin \<or> owner ?nc = Some sample_admin"
    by (simp_all add: sample_world_fields sample_node_fields sample_admin_def clean_def
                      get_db_status_calls sample_db_status clean_status_def
                      sample_transitions_simps)
  have pd: "distinct (map system_id (node_table ?v))" "clean sample_env ?v ?oe = Inr ()"
           "status ?oe \<noteq> ALLOCATED" "is_superuser sample_admin \<or> owner ?oe = Some sample_admin"
    by (simp_all add: sample_world_fields sample_node_fields sample_admin_def clean_def
                      sample_db_status clean_status_def sample_transitions_simps)
  have s1: "save sample_env (?w\<lparr>calls := calls ?w @ [ClearResults (system_id ?n)]\<rparr>)
              (?n\<lparr>status := COMMISSIONING\<rparr>) = (Inr (), ?w1)"
    using c1 [OF pc sample_power(3) sample_power(4) sample_dispatch_fails(1)]
    by (simp add: sample_node_fields)
  have sn: "start_nodes sample_env ?w1 (Some [system_id ?n]) (Some sample_admin)
              (Some (commissioning_user_data sample_env ?n)) = (Inl ?ex, ?w2)"
    using c2 [OF pc sample_power(3) sample_power(4) sample_dispatch_fails(1)]
    by (simp add: sample_node_fields sample_dispatch_fails(2))
  have ok: "status ?n = COMMISSIONING
            \<or> status ?n \<in> set (transitions_from sample_env (Some COMMISSIONING))"
    by (simp add: sample_node_fields sample_transitions_simps)
  have t1: "save sample_env ?v (?o\<lparr>status := DISK_ERASING\<rparr>) = (Inr (), ?v1)"
    using e1 [OF pd sample_power(3) sample_power(4) sample_dispatch_fails(1)]
    by (simp add: sample_node_fields)
  have tn: "start_nodes sample_env ?v1 (Some [system_id ?o]) (Some sample_admin)
              (Some (disk_erasing_user_data sample_env ?o)) = (Inl ?ex, ?v2)"
    using e2 [OF pd sample_power(3) sample_power(4) sample_dispatch_fails(1)]
    by (simp add: sample_node_fields sample_dispatch_fails(2))
  have ok': "FAILED_DISK_ERASING \<in> set (transitions_from sample_env (Some DISK_ERASING))"
    by (simp add: sample_transitions_simps)
  have g: "get_nodes ?d (Some sample_admin) EDIT (Some [''n4'']) = [?m]"
    by (rule sample_get_nodes)
  have st: "status ?m = ALLOCATED" by (simp add: sample_node_fields)
  have cd: "claim_and_deploy sample_env [?m] [] ?da = (Inr ([?md], ?sm), ?d1)"
    by (rule pair_with_snd) (rule sample_claim_and_deploy)
  have sp: "sync_and_power_on sample_env [?md] ?sm ?d1 = (Inl ?ex, ?d2)"
    by (rule pair_with_snd) (rule sample_sync_fails)
  note t = power_dispatch_failure_status
         [where e=sample_env and w="?w" and self="?n" and usr="Some sample_admin"
            and ?w1.0="?w1" and ?w2.0="?w2" and ex="?ex"
            and v="?v" and other="?o" and usr'="Some sample_admin"
            and ?v1.0="?v1" and ?v2.0="?v2" and ex'="?ex"
            and d="?d" and by_user="Some sample_admin" and ids="Some [''n4'']" and n="?m"
            and ud=None and nodes'="[?md]" and sm="?sm" and ?d1.0="?d1" and ex''="?ex"
            and ?d2.0="?d2"]
  note ta = t [THEN conjunct1, THEN mp, OF s1, THEN mp, OF sn, THEN mp, OF ok]
  note tb = t [THEN conjunct2, THEN conjunct1, THEN mp, OF t1, THEN mp, OF tn, THEN mp, OF ok']
  note tc = t [THEN conjunct2, THEN conjunct2, THEN mp, OF g, THEN mp, OF st,
               THEN mp, OF cd, THEN mp, OF sp]
  from ta have a: "fst (start_commissioning sample_env ?w ?n (Some sample_admin)) = Inl ?ex"
    "status (snd (snd (start_commissioning sample_env ?w ?n (Some sample_admin)))) = READY"
    "get_db_status (fst (snd (start_commissioning sample_env ?w ?n (Some sample_admin)))) ?n
       = Some READY"
    by (simp_all add: sample_node_fields get_db_status_def)
  from tb have b: "fst (start_disk_erasing sample_env ?v ?o (Some sample_admin)) = Inl ?ex"
    "status (snd (snd (start_disk_erasing sample_env ?v ?o (Some sample_admin))))
       = FAILED_DISK_ERASING"
    "get_db_status (fst (snd (start_disk_erasing sample_env ?v ?o (Some sample_admin)))) ?o
       = Some FAILED_DISK_ERASING"
    by (simp_all add: sample_node_fields)
  from tc have c: "fst (start_nodes sample_env ?d (Some [''n4'']) (Some sample_admin) None)
                     = Inl ?ex"
    "get_db_status (snd (start_nodes sample_env ?d (Some [''n4'']) (Some sample_admin) None)) ?m
       = Some DEPLOYING"
    by simp_all
  from a b c show ?thesis by blast
qed

theorem start_nodes_failure_leaves_deploying:
  "fst (start_nodes sample_env (sample_world [sample_node ''n3'' ALLOCATED ''ipmi'' ''bb''])
          (Some [''n3'']) (Some sample_admin) None)
     = Inl (MultipleFailures [''no power''])
   \<and> get_db_status (sample_world [sample_node ''n3'' ALLOCATED ''ipmi'' ''bb''])
        (sample_node ''n3'' ALLOCATED ''ipmi'' ''bb'') = Some ALLOCATED
   \<and> get_db_status
        (snd (start_nodes sample_env (sample_world [sample_node ''n3'' ALLOCATED ''ipmi'' ''bb''])
                (Some [''n3'']) (Some sample_admin) None))
        (sample_node ''n3'' ALLOCATED ''ipmi'' ''bb'') = Some DEPLOYING"
proof -
  let ?m = "sample_node ''n3'' ALLOCATED ''ipmi'' ''bb''"
  let ?md = "sample_node ''n3'' DEPLOYING ''ipmi'' ''bb''"
  let ?d = "sample_world [?m]"
  let ?da = "?d\<lparr>calls := calls ?d @ [BulkSetUserData [system_id ?m] None]\<rparr>"
  let ?sm = "static_mappings_update [] ''c1'' [(''10.0.0.5'', ''bb'')]"
  let ?d1 = "snd (claim_and_deploy sample_env [?m] [] ?da)"
  let ?d2 = "snd (sync_and_power_on sample_env [?md] ?sm ?d1)"
  have g: "get_nodes ?d (Some sample_admin) EDIT (Some [''n3'']) = [?m]"
    by (rule sample_get_nodes)
  have st: "status ?m = ALLOCATED" by (simp add: sample_node_fields)
  have cd: "claim_and_deploy sample_env [?m] [] ?da = (Inr ([?md], ?sm), ?d1)"
    by (rule pair_with_snd) (rule sample_claim_and_deploy)
  have sp: "sync_and_power_on sample_env [?md] ?sm ?d1
              = (Inl (MultipleFailures [''no power'']), ?d2)"
    by (rule pair_with_snd) (rule sample_sync_fails)
  note r = start_nodes_deploy_failure [OF g st cd sp]
  have b: "get_db_status ?d ?m = Some ALLOCATED" by (rule sample_db_status)
  from r(1) have a: "fst (start_nodes sample_env ?d (Some [''n3'']) (Some sample_admin) None)
                       = Inl (MultipleFailures [''no power''])"
    by simp
  from r(1) r(2)
  have c: "get_db_status
             (snd (start_nodes sample_env ?d (Some [''n3'']) (Some sample_admin) None)) ?m
           = Some DEPLOYING"
    by simp
  from a b c show ?thesis by blast
qed

end
